theory Spec2Isabelle
  imports Main
begin

section \<open>JavaScript values used by both servers\<close>

text \<open>
  The repository holds two socket servers for the same game: the Redis-backed one (the
  second document of \<^verbatim>\<open>public/js/fetchers.js\<close>; its store \<^verbatim>\<open>db\<close> is \<^verbatim>\<open>redis.js\<close>) and the
  in-memory one (\<^verbatim>\<open>src/index.js\<close>; its games are objects of \<^verbatim>\<open>game.js\<close>). Neither
  \<^verbatim>\<open>redis.js\<close> nor \<^verbatim>\<open>game.js\<close> is among the sources, so every handler below takes the
  missing module as a record of functions, and a reference instance of each record is
  written from the specification and the README's Redis layout.

  A socket object is a reference: it is named by a number, and its mutable properties
  live in a table of the state. An \<^verbatim>\<open>undefined\<close> property or argument is \<open>None\<close>.
\<close>

type_synonym cid = nat

datatype failure = SyntaxError | TypeError

text \<open>
  What escapes a handler: an exception thrown synchronously inside an event listener
  (nothing in either file catches one), or the rejection of a promise nobody handles.
\<close>

datatype escape = Uncaught failure | Rejected failure

definition truthy_str :: "string option \<Rightarrow> bool" where
  "truthy_str v = (case v of None \<Rightarrow> False | Some s \<Rightarrow> s \<noteq> [])"

definition truthy_num :: "nat option \<Rightarrow> bool" where
  "truthy_num v = (case v of None \<Rightarrow> False | Some n \<Rightarrow> n \<noteq> 0)"

text \<open>Property keys and template literals turn \<^verbatim>\<open>undefined\<close> into the text "undefined".\<close>

definition js_str :: "string option \<Rightarrow> string" where
  "js_str v = (case v of None \<Rightarrow> ''undefined'' | Some s \<Rightarrow> s)"

definition digit_char :: "nat \<Rightarrow> char" where
  "digit_char d =
     (if d = 0 then CHR ''0'' else if d = 1 then CHR ''1'' else if d = 2 then CHR ''2''
      else if d = 3 then CHR ''3'' else if d = 4 then CHR ''4'' else if d = 5 then CHR ''5''
      else if d = 6 then CHR ''6'' else if d = 7 then CHR ''7'' else if d = 8 then CHR ''8''
      else CHR ''9'')"

fun string_of_nat :: "nat \<Rightarrow> string" where
  "string_of_nat n =
     (if n < 10 then [digit_char n] else string_of_nat (n div 10) @ [digit_char (n mod 10)])"

definition string_of_int :: "int \<Rightarrow> string" where
  "string_of_int i = (if i < 0 then CHR ''-'' # string_of_nat (nat (- i)) else string_of_nat (nat i))"

definition js_int :: "int option \<Rightarrow> string" where
  "js_int v = (case v of None \<Rightarrow> ''undefined'' | Some i \<Rightarrow> string_of_int i)"

text \<open>The double-quote character of the notification texts.\<close>

definition dq :: string where
  "dq = [CHR 0x22]"

definition js_nat :: "nat option \<Rightarrow> string" where
  "js_nat v = (case v of None \<Rightarrow> ''undefined'' | Some n \<Rightarrow> string_of_nat n)"

text \<open>
  The properties the two servers keep on a socket (\<^verbatim>\<open>ws.player\<close> is the in-memory
  server's slot name; \<^verbatim>\<open>playerId\<close>, \<^verbatim>\<open>teamId\<close>, \<^verbatim>\<open>token\<close> and the Facebook fields are the
  Redis-backed server's), with the library's \<^verbatim>\<open>readyState\<close> (1 is OPEN).
\<close>

record sock =
  readyState :: nat
  gameId :: "string option"
  playerName :: "string option"
  player :: "string option"
  playerId :: "nat option"
  teamId :: "nat option"
  token :: "string option"
  facebookId :: "string option"
  facebookImage :: "string option"

text \<open>A push notification handed to \<^verbatim>\<open>iosNotificationService.send\<close>: the registration ids,
  title, body and \<^verbatim>\<open>custom.gameId\<close> (topic, badge and sound are constants).\<close>

record push =
  push_tokens :: "string list"
  push_title :: string
  push_body :: string
  push_gameId :: "string option"

text \<open>
  The state of a server process: \<^verbatim>\<open>sockets\<close> (game id to the \<^verbatim>\<open>Set\<close> of sockets, in
  insertion order), the sockets' properties, the store, everything written to a socket
  (recipient, the message's top-level \<^verbatim>\<open>gameId\<close>, the event), the pushes sent, and the
  exceptions that escaped.
\<close>

record ('d, 'e) world =
  sockets :: "string \<Rightarrow> cid list option"
  conns :: "cid \<Rightarrow> sock"
  db :: 'd
  outbox :: "(cid \<times> string option \<times> 'e) list"
  pushes :: "push list"
  escaped :: "escape list"

text \<open>An inbound message after \<^verbatim>\<open>JSON.parse\<close>.\<close>

record payload =
  p_player :: "string option"
  p_playerName :: "string option"
  p_token :: "string option"
  p_facebookId :: "string option"
  p_facebookImage :: "string option"
  p_teamId :: "string option"
  p_word :: "string option"
  p_number :: "int option"

record inbound =
  m_gameId :: "string option"
  m_type :: "string option"
  m_payload :: "payload option"

definition no_payload :: payload where
  "no_payload = \<lparr>p_player = None, p_playerName = None, p_token = None, p_facebookId = None,
     p_facebookImage = None, p_teamId = None, p_word = None, p_number = None\<rparr>"

section \<open>The Redis-backed server (second document of public/js/fetchers.js)\<close>

subsection \<open>The store interface\<close>

text \<open>The hash \<^verbatim>\<open>game:{id}:turn\<close> as \<^verbatim>\<open>db.getTurn\<close> returns it.\<close>

record turn =
  clueGiverTeamId :: "nat option"
  clueWord :: "string option"
  clueNumber :: "int option"
  guessesLeft :: "int option"

text \<open>
  The methods of \<^verbatim>\<open>db\<close> (\<^verbatim>\<open>redis.js\<close>, absent) that the server calls, each awaited call
  taken as one atomic step on the store \<open>'d\<close>. \<open>'m\<close> is a \<^verbatim>\<open>Game\<close> object, \<open>'v\<close> the
  word list \<^verbatim>\<open>db.getWords\<close> returns, \<open>'g\<close> the fields of a guess result other than its
  \<^verbatim>\<open>turnsLeft\<close>. \<open>new_Game\<close> is the object \<^verbatim>\<open>new Game()\<close> draws.
\<close>

record ('d, 'm, 'v, 'g) db_api =
  new_Game :: 'm
  db_getGame :: "string option \<Rightarrow> 'd \<Rightarrow> 'm option"
  db_setGame :: "string option \<Rightarrow> 'm \<Rightarrow> 'd \<Rightarrow> 'd"
  db_getTokensOnTeam :: "string option \<Rightarrow> nat \<Rightarrow> 'd \<Rightarrow> string list"
  db_removePlayerFromTeam ::
    "string option \<Rightarrow> nat option \<Rightarrow> nat option \<Rightarrow> string option \<Rightarrow> 'd \<Rightarrow> 'd"
  db_setPlayer ::
    "string option \<Rightarrow> string option \<Rightarrow> string option \<Rightarrow> string option \<Rightarrow> 'd \<Rightarrow> nat option \<times> 'd"
  db_getPlayer :: "nat option \<Rightarrow> 'd \<Rightarrow> string option option"
  db_getTeamIdForPlayerId :: "string option \<Rightarrow> nat option \<Rightarrow> 'd \<Rightarrow> nat option"
  db_addPlayerToTeam ::
    "string option \<Rightarrow> nat option \<Rightarrow> string option \<Rightarrow> nat option \<Rightarrow> 'd \<Rightarrow> nat option \<times> 'd"
  db_getAgentsLeft :: "string option \<Rightarrow> 'd \<Rightarrow> int \<times> int"
  db_getWords :: "string option \<Rightarrow> nat option \<Rightarrow> 'd \<Rightarrow> 'v"
  db_getTurnsLeft :: "string option \<Rightarrow> 'd \<Rightarrow> int"
  db_setTurnsLeft :: "string option \<Rightarrow> int \<Rightarrow> 'd \<Rightarrow> 'd"
  db_setTurn ::
    "string option \<Rightarrow> nat option \<Rightarrow> string option \<Rightarrow> int option \<Rightarrow> int option \<Rightarrow> 'd \<Rightarrow> 'd"
  db_getTurn :: "string option \<Rightarrow> 'd \<Rightarrow> turn option"
  db_makeGuess :: "string option \<Rightarrow> nat option \<Rightarrow> string option \<Rightarrow> 'd \<Rightarrow> (int \<times> 'g) option \<times> 'd"

subsection \<open>Outbound events\<close>

text \<open>
  One constructor per outbound \<^verbatim>\<open>type\<close>, its arguments the payload's fields in source
  order: \<open>PlayerJoined\<close> and \<open>PlayerLeft\<close> carry count, playerName, playerId,
  facebookImage, teamId; \<open>PlayerChanged\<close> gameId, playerName, playerId, facebookId,
  facebookImage, token; \<open>Words\<close> gameId, words, agentsLeftTeamOne, agentsLeftTeamTwo;
  \<open>ClueGiven\<close> playerGivingClue, number, word; \<open>Guess\<close> the guess result
  (\<^verbatim>\<open>turnsLeft\<close> and the rest), the two agent counts and gameId.
\<close>

datatype ('v, 'g) event =
    PlayerJoined int "string option" "nat option" "string option" "nat option"
  | PlayerLeft int "string option" "nat option" "string option" "nat option"
  | PlayerChanged "string option" "string option" "nat option" "string option" "string option"
      "string option"
  | TeamChanged string
  | Words "string option" 'v int int
  | Turns int
  | ClueGiven string "int option" "string option"
  | Guess "int \<times> 'g" int int "string option"

subsection \<open>send, broadcast, iOSNotify\<close>

definition send :: "cid \<Rightarrow> 'e \<Rightarrow> ('d, 'e) world \<Rightarrow> ('d, 'e) world" where
  "send client data w =
     (if readyState (conns w client) = 1
      then w\<lparr>outbox := outbox w @ [(client, gameId (conns w client), data)]\<rparr>
      else w)"

definition broadcast :: "string option \<Rightarrow> 'e \<Rightarrow> ('d, 'e) world \<Rightarrow> ('d, 'e) world" where
  "broadcast g data w =
     (case sockets w (js_str g) of
        None \<Rightarrow> w
      | Some clients \<Rightarrow>
          w\<lparr>outbox := outbox w @
              map (\<lambda>client. (client, g, data))
                (filter (\<lambda>client. readyState (conns w client) = 1) clients)\<rparr>)"

definition iOSNotify ::
  "string option \<Rightarrow> string list \<Rightarrow> string \<Rightarrow> string \<Rightarrow> ('d, 'e) world \<Rightarrow> ('d, 'e) world" where
  "iOSNotify g tokens title body w =
     (if tokens = [] then w
      else w\<lparr>pushes := pushes w @
             [\<lparr>push_tokens = tokens, push_title = title, push_body = body, push_gameId = g\<rparr>]\<rparr>)"

subsection \<open>Action handlers\<close>

text \<open>
  \<^verbatim>\<open>ws.teamId\<close> holds a number or \<^verbatim>\<open>undefined\<close> (it is only ever assigned the result of
  \<^verbatim>\<open>db.addPlayerToTeam\<close> or \<^verbatim>\<open>undefined\<close>, and is compared with 1 everywhere else), so
  the strict comparison \<^verbatim>\<open>ws.teamId === 'one'\<close> of \<^verbatim>\<open>giveClue\<close>, a number against a string,
  is false whatever the team.
\<close>

definition teamId_is_string :: "nat option \<Rightarrow> string \<Rightarrow> bool" where
  "teamId_is_string t s = False"

definition giveClue ::
  "('d, 'm, 'v, 'g) db_api \<Rightarrow> cid \<Rightarrow> string option \<Rightarrow> int option \<Rightarrow>
     ('d, ('v, 'g) event) world \<Rightarrow> ('d, ('v, 'g) event) world" where
  "giveClue api c clueWord' clueNumber' w =
     (let ws = conns w c;
          turnsLeftBefore = db_getTurnsLeft api (gameId ws) (db w);
          w1 = w\<lparr>db := db_setTurn api (gameId ws) (teamId ws) clueWord' clueNumber' clueNumber' (db w)\<rparr>;
          turnsLeftAfter = db_getTurnsLeft api (gameId ws) (db w1);
          w2 = (if turnsLeftBefore \<noteq> turnsLeftAfter
                then broadcast (gameId ws) (Turns turnsLeftAfter) w1 else w1);
          otherTeamId = (if teamId_is_string (teamId ws) ''one'' then 2 else 1);
          tokens = db_getTokensOnTeam api (gameId ws) otherTeamId (db w2);
          w3 = iOSNotify (gameId ws) tokens ''A clue has been given in your game''
                 (js_str (playerName ws) @ '' gave the clue '' @ dq @ js_str clueWord' @ dq @ '' - '' @
                  js_int clueNumber') w2
      in broadcast (gameId ws)
           (ClueGiven (if otherTeamId = 1 then ''playerOne'' else ''playerTwo'') clueNumber' clueWord')
           w3)"

definition endTurn ::
  "('d, 'm, 'v, 'g) db_api \<Rightarrow> string option \<Rightarrow>
     ('d, ('v, 'g) event) world \<Rightarrow> ('d, ('v, 'g) event) world" where
  "endTurn api g w =
     (let turnsLeft = db_getTurnsLeft api g (db w);
          d1 = db_setTurnsLeft api g (turnsLeft - 1) (db w);
          d2 = db_setTurn api g None None None None d1
      in broadcast g (Turns (turnsLeft - 1)) (w\<lparr>db := d2\<rparr>))"

text \<open>
  \<^verbatim>\<open>makeGuess\<close> destructures the result of \<^verbatim>\<open>db.getTurn\<close> and of \<^verbatim>\<open>db.getPlayer\<close> without
  a default (\<^verbatim>\<open>maybeSendCurrentClue\<close> guards the former with \<^verbatim>\<open>|| {}\<close>): a missing
  record rejects the handler's promise at that line.
\<close>

definition makeGuess ::
  "('d, 'm, 'v, 'g) db_api \<Rightarrow> cid \<Rightarrow> string option \<Rightarrow>
     ('d, ('v, 'g) event) world \<Rightarrow> ('d, ('v, 'g) event) world" where
  "makeGuess api c word w =
     (let ws = conns w c in
      case db_getTurn api (gameId ws) (db w) of
        None \<Rightarrow> w\<lparr>escaped := escaped w @ [Rejected TypeError]\<rparr>
      | Some t \<Rightarrow>
          (let turnsLeft = db_getTurnsLeft api (gameId ws) (db w);
               made = db_makeGuess api (gameId ws) (teamId ws) word (db w);
               w1 = w\<lparr>db := snd made\<rparr>
           in case fst made of
                None \<Rightarrow> w1
              | Some guess \<Rightarrow>
                  (let agents = db_getAgentsLeft api (gameId ws) (db w1);
                       w2 = broadcast (gameId ws)
                              (Guess guess (fst agents) (snd agents) (gameId ws)) w1;
                       clueText = (if truthy_str (clueWord t)
                                   then '' for the clue '' @ dq @ js_str (clueWord t) @ dq
                                   else []);
                       otherTeamId = (if teamId ws = Some 1 then 2 else 1);
                       tokens = db_getTokensOnTeam api (gameId ws) otherTeamId (db w2)
                   in case db_getPlayer api (playerId ws) (db w2) of
                        None \<Rightarrow> w2\<lparr>escaped := escaped w2 @ [Rejected TypeError]\<rparr>
                      | Some playerName' \<Rightarrow>
                          (let w3 = iOSNotify (gameId ws) tokens
                                      ''A guess has been made in your game''
                                      (js_str playerName' @ '' guessed '' @ dq @ js_str word @ dq @
                                       clueText) w2
                           in if turnsLeft \<noteq> fst guess
                              then broadcast (gameId ws) (Turns (fst guess)) w3
                              else w3))))"

definition maybeSendCurrentClue ::
  "('d, 'm, 'v, 'g) db_api \<Rightarrow> cid \<Rightarrow>
     ('d, ('v, 'g) event) world \<Rightarrow> ('d, ('v, 'g) event) world" where
  "maybeSendCurrentClue api c w =
     (let ws = conns w c;
          t = (case db_getTurn api (gameId ws) (db w) of
                 None \<Rightarrow> \<lparr>clueGiverTeamId = None, clueWord = None, clueNumber = None,
                           guessesLeft = None\<rparr>
               | Some t' \<Rightarrow> t')
      in if \<not> truthy_str (clueWord t) then w
         else send c
                (ClueGiven (if clueGiverTeamId t = Some 1 then ''playerOne'' else ''playerTwo'')
                   (guessesLeft t) (clueWord t)) w)"

definition sendWholeGameState ::
  "('d, 'm, 'v, 'g) db_api \<Rightarrow> cid \<Rightarrow>
     ('d, ('v, 'g) event) world \<Rightarrow> ('d, ('v, 'g) event) world" where
  "sendWholeGameState api c w =
     (let ws = conns w c;
          agents = db_getAgentsLeft api (gameId ws) (db w);
          w1 = send c (Words (gameId ws) (db_getWords api (gameId ws) (teamId ws) (db w))
                         (fst agents) (snd agents)) w;
          w2 = send c (Turns (db_getTurnsLeft api (gameId ws) (db w1))) w1
      in maybeSendCurrentClue api c w2)"

definition handleStartNewGame ::
  "('d, 'm, 'v, 'g) db_api \<Rightarrow> cid \<Rightarrow>
     ('d, ('v, 'g) event) world \<Rightarrow> ('d, ('v, 'g) event) world" where
  "handleStartNewGame api c w =
     (let ws = conns w c;
          w1 = w\<lparr>db := db_setGame api (gameId ws) (new_Game api) (db w)\<rparr>;
          w2 = (case sockets w1 (js_str (gameId ws)) of
                  None \<Rightarrow> w1
                | Some clients \<Rightarrow> foldl (\<lambda>acc client. sendWholeGameState api client acc) w1 clients);
          otherTeamId = (if teamId ws = Some 1 then 2 else 1);
          tokens = db_getTokensOnTeam api (gameId ws) otherTeamId (db w2)
      in iOSNotify (gameId ws) tokens ''A new game has started''
           (js_str (playerName ws) @ '' started a new game with you at '' @ dq @
            js_str (gameId ws) @ dq) w2)"

subsection \<open>Players leaving, changing and switching teams\<close>

text \<open>
  \<^verbatim>\<open>handlePlayerLeft\<close> has no \<^verbatim>\<open>await\<close>: its body runs at the call. It broadcasts, and
  when the socket has a team but neither Facebook id nor token it registers, on an
  already resolved promise, the callback
  \<^verbatim>\<open>() => db.removePlayerFromTeam(ws.gameId, ws.playerId, ws.teamId)\<close>.
  A promise callback never runs before the synchronous code that registered it has
  returned to the event loop, and the callback reads the socket's properties when it
  runs. So the model returns whether the callback was registered, and the caller runs
  \<open>removePlayerFromTeam_callback\<close> where the microtask runs. The first component is False
  when \<^verbatim>\<open>sockets[ws.gameId]\<close> is undefined and reading its \<^verbatim>\<open>size\<close> throws.
\<close>

definition handlePlayerLeft ::
  "cid \<Rightarrow> ('d, ('v, 'g) event) world \<Rightarrow> bool \<times> bool \<times> ('d, ('v, 'g) event) world" where
  "handlePlayerLeft c w =
     (let ws = conns w c in
      case sockets w (js_str (gameId ws)) of
        None \<Rightarrow> (False, False, w\<lparr>escaped := escaped w @ [Rejected TypeError]\<rparr>)
      | Some clients \<Rightarrow>
          (True,
           truthy_num (teamId ws) \<and> \<not> truthy_str (facebookId ws) \<and> \<not> truthy_str (token ws),
           if length clients \<noteq> 0
           then broadcast (gameId ws)
                  (PlayerLeft (int (length clients)) (playerName ws) (playerId ws) None (teamId ws)) w
           else w))"

definition removePlayerFromTeam_callback ::
  "('d, 'm, 'v, 'g) db_api \<Rightarrow> cid \<Rightarrow> ('d, 'e) world \<Rightarrow> ('d, 'e) world" where
  "removePlayerFromTeam_callback api c w =
     (let ws = conns w c
      in w\<lparr>db := db_removePlayerFromTeam api (gameId ws) (playerId ws) (teamId ws) None (db w)\<rparr>)"

text \<open>
  The \<^verbatim>\<open>close\<close> listener: the socket leaves the set, \<^verbatim>\<open>handlePlayerLeft(ws)\<close> runs, the
  listener clears the socket's properties, and only then, the listener having returned,
  does the registered callback run.
\<close>

definition clear_sock :: "sock \<Rightarrow> sock" where
  "clear_sock ws = ws\<lparr>gameId := None, playerName := None, token := None, playerId := None,
     teamId := None, facebookId := None, facebookImage := None\<rparr>"

definition on_close ::
  "('d, 'm, 'v, 'g) db_api \<Rightarrow> cid \<Rightarrow>
     ('d, ('v, 'g) event) world \<Rightarrow> ('d, ('v, 'g) event) world" where
  "on_close api c w =
     (let ws = conns w c in
      case sockets w (js_str (gameId ws)) of
        None \<Rightarrow> w
      | Some clients \<Rightarrow>
          if \<not> truthy_str (gameId ws) then w
          else
            (let w1 = w\<lparr>sockets := (sockets w)(js_str (gameId ws) \<mapsto> removeAll c clients)\<rparr>;
                 left = handlePlayerLeft c w1;
                 w2 = snd (snd left);
                 w3 = w2\<lparr>conns := (conns w2)(c := clear_sock (conns w2 c))\<rparr>
             in if fst (snd left) then removePlayerFromTeam_callback api c w3 else w3))"

text \<open>
  \<^verbatim>\<open>handleTeamChanged\<close>. Reading \<^verbatim>\<open>sockets[ws.gameId].size\<close> throws when the set is
  undefined; the first component of the result is False when the promise rejects.
\<close>

definition handleTeamChanged ::
  "('d, 'm, 'v, 'g) db_api \<Rightarrow> cid \<Rightarrow> nat option \<Rightarrow>
     ('d, ('v, 'g) event) world \<Rightarrow> bool \<times> ('d, ('v, 'g) event) world" where
  "handleTeamChanged api c teamId' w =
     (let ws = conns w c;
          teamIdForPlayerId = db_getTeamIdForPlayerId api (gameId ws) (playerId ws) (db w);
          desiredTeamId = (if truthy_num teamId' then teamId' else teamIdForPlayerId);
          leaving = (truthy_num (teamId ws) \<and> teamId ws \<noteq> desiredTeamId)
      in case sockets w (js_str (gameId ws)) of
           None \<Rightarrow>
             if leaving then (False, w\<lparr>escaped := escaped w @ [Rejected TypeError]\<rparr>)
             else
               (let added = db_addPlayerToTeam api (gameId ws) (playerId ws) (token ws)
                              desiredTeamId (db w);
                    w3 = w\<lparr>db := snd added\<rparr>
                in if fst added \<noteq> teamId ws
                   then (False,
                         w3\<lparr>conns := (conns w3)(c := ws\<lparr>teamId := fst added\<rparr>),
                            escaped := escaped w3 @ [Rejected TypeError]\<rparr>)
                   else (True, w3))
         | Some clients \<Rightarrow>
             (let w1 = (if leaving
                        then broadcast (gameId ws)
                               (PlayerLeft (int (length clients) - 1) (playerName ws) (playerId ws)
                                  (facebookImage ws) (teamId ws)) w
                        else w);
                  w2 = (if leaving
                        then w1\<lparr>db := db_removePlayerFromTeam api (gameId ws) (playerId ws)
                                         (teamId ws) (token ws) (db w1)\<rparr>
                        else w1);
                  added = db_addPlayerToTeam api (gameId ws) (playerId ws) (token ws)
                            desiredTeamId (db w2);
                  w3 = w2\<lparr>db := snd added\<rparr>
              in if fst added \<noteq> teamId ws
                 then
                   (let w4 = w3\<lparr>conns := (conns w3)(c := ws\<lparr>teamId := fst added\<rparr>)\<rparr>;
                        agents = db_getAgentsLeft api (gameId ws) (db w4);
                        w5 = broadcast (gameId ws)
                               (PlayerJoined (int (length clients)) (playerName ws) (playerId ws)
                                  (facebookImage ws) (fst added)) w4;
                        w6 = send c (TeamChanged (if fst added = Some 1 then ''one'' else ''two'')) w5
                    in (True,
                        send c (Words (gameId ws)
                                  (db_getWords api (gameId ws) (fst added) (db w6))
                                  (fst agents) (snd agents)) w6))
                 else (True, w3)))"

text \<open>
  \<^verbatim>\<open>handlePlayerChanged\<close>. After \<^verbatim>\<open>db.setPlayer\<close> two callbacks are registered on one
  resolved promise and run in that order: \<^verbatim>\<open>handlePlayerLeft(ws)\<close> (which may register
  the removal callback), then the function that rewrites the socket's properties, sends
  \<^verbatim>\<open>playerChanged\<close> and calls \<^verbatim>\<open>db.getTeamIdForPlayerId\<close>; at that \<^verbatim>\<open>await\<close> the removal
  callback runs, reading the rewritten properties.
\<close>

definition handlePlayerChanged ::
  "('d, 'm, 'v, 'g) db_api \<Rightarrow> cid \<Rightarrow> string option \<Rightarrow> string option \<Rightarrow> string option \<Rightarrow>
     string option \<Rightarrow> ('d, ('v, 'g) event) world \<Rightarrow> bool \<times> ('d, ('v, 'g) event) world" where
  "handlePlayerChanged api c playerName' facebookId' facebookUrl token' w =
     (let previousPlayerId = playerId (conns w c);
          resolved = db_setPlayer api playerName' facebookId' facebookUrl token' (db w);
          w1 = w\<lparr>db := snd resolved\<rparr>
      in if fst resolved = previousPlayerId then (True, w1)
         else
           (let left = (if truthy_num previousPlayerId then handlePlayerLeft c w1
                        else (True, False, w1));
                w2 = snd (snd left);
                w3 = w2\<lparr>conns := (conns w2)(c := (conns w2 c)\<lparr>playerId := fst resolved,
                        playerName := playerName', facebookId := facebookId',
                        facebookImage := facebookUrl, token := token'\<rparr>)\<rparr>;
                ws = conns w3 c;
                w4 = send c (PlayerChanged (gameId ws) playerName' (fst resolved) facebookId'
                               facebookUrl token') w3;
                teamIdForPlayerId = db_getTeamIdForPlayerId api (gameId ws) (fst resolved) (db w4);
                w5 = (if fst (snd left) then removePlayerFromTeam_callback api c w4 else w4)
            in if \<not> truthy_num teamIdForPlayerId \<or> teamId ws \<noteq> teamIdForPlayerId
               then handleTeamChanged api c teamIdForPlayerId w5
               else
                 (case sockets w5 (js_str (gameId ws)) of
                    None \<Rightarrow> (False, w5\<lparr>escaped := escaped w5 @ [Rejected TypeError]\<rparr>)
                  | Some clients \<Rightarrow>
                      (True,
                       broadcast (gameId ws)
                         (PlayerJoined (int (length clients)) (playerName ws) (playerId ws)
                            (facebookImage ws) (teamId ws)) w5))))"

subsection \<open>Inbound messages\<close>

definition getOrCreateGame ::
  "('d, 'm, 'v, 'g) db_api \<Rightarrow> string option \<Rightarrow> ('d, 'e) world \<Rightarrow> ('d, 'e) world" where
  "getOrCreateGame api g w =
     (case db_getGame api g (db w) of
        None \<Rightarrow> w\<lparr>db := db_setGame api g (new_Game api) (db w)\<rparr>
      | Some gameData \<Rightarrow> w)"

text \<open>
  The executor of the promise that \<^verbatim>\<open>handleInitialRequest\<close> builds: the three branches on
  \<^verbatim>\<open>sockets[gameId]\<close>. In the second one every open socket of the set is replayed to the
  newcomer as a \<^verbatim>\<open>playerJoined\<close> before the newcomer is added.
\<close>

definition replay_roster ::
  "cid \<Rightarrow> cid list \<Rightarrow> ('d, ('v, 'g) event) world \<Rightarrow> ('d, ('v, 'g) event) world" where
  "replay_roster c clients w =
     foldl (\<lambda>acc client.
              if readyState (conns acc client) = 1
              then send c (PlayerJoined (int (length clients)) (playerName (conns acc client))
                             (playerId (conns acc client)) (facebookImage (conns acc client))
                             (teamId (conns acc client))) acc
              else acc) w clients"

definition register_socket ::
  "('d, 'm, 'v, 'g) db_api \<Rightarrow> cid \<Rightarrow> string option \<Rightarrow>
     ('d, ('v, 'g) event) world \<Rightarrow> ('d, ('v, 'g) event) world" where
  "register_socket api c g w =
     (case sockets w (js_str g) of
        None \<Rightarrow> getOrCreateGame api g (w\<lparr>sockets := (sockets w)(js_str g \<mapsto> [c])\<rparr>)
      | Some clients \<Rightarrow>
          if c \<notin> set clients
          then (let w1 = replay_roster c clients w
                in w1\<lparr>sockets := (sockets w1)(js_str g \<mapsto> clients @ [c])\<rparr>)
          else w)"

text \<open>
  \<^verbatim>\<open>handleInitialRequest\<close>; the first component of the result says whether its promise
  is fulfilled, for \<^verbatim>\<open>handleRequest\<close> is chained on it with \<^verbatim>\<open>then\<close>. The callback
  destructures \<^verbatim>\<open>payload\<close>, which has no default here: a message without a payload rejects.
\<close>

definition handleInitialRequest ::
  "('d, 'm, 'v, 'g) db_api \<Rightarrow> cid \<Rightarrow> inbound \<Rightarrow>
     ('d, ('v, 'g) event) world \<Rightarrow> bool \<times> ('d, ('v, 'g) event) world" where
  "handleInitialRequest api c data w =
     (if \<not> truthy_str (m_gameId data) then (True, w)
      else
        (let g = m_gameId data;
             w1 = (if \<not> truthy_str (gameId (conns w c))
                   then w\<lparr>conns := (conns w)(c := (conns w c)\<lparr>gameId := g\<rparr>)\<rparr>
                   else w);
             w2 = register_socket api c g w1
         in case m_payload data of
              None \<Rightarrow> (False, w2\<lparr>escaped := escaped w2 @ [Rejected TypeError]\<rparr>)
            | Some p \<Rightarrow>
                (let ws = conns w2 c;
                     hasNewToken = (truthy_str (p_token p) \<and> p_token p \<noteq> token ws);
                     hasNewFacebookId =
                       (truthy_str (p_facebookId p) \<and> p_facebookId p \<noteq> facebookId ws);
                     hasNewPlayerName =
                       (truthy_str (p_playerName p) \<and> p_playerName p \<noteq> playerName ws)
                 in if m_type data \<noteq> Some ''changePlayer'' \<and>
                       (hasNewToken \<or> hasNewFacebookId \<or> hasNewPlayerName)
                    then handlePlayerChanged api c (p_playerName p) (p_facebookId p)
                           (p_facebookImage p) (p_token p) w2
                    else (True, w2))))"

definition handleRequest ::
  "('d, 'm, 'v, 'g) db_api \<Rightarrow> cid \<Rightarrow> inbound \<Rightarrow>
     ('d, ('v, 'g) event) world \<Rightarrow> ('d, ('v, 'g) event) world" where
  "handleRequest api c data w =
     (if \<not> truthy_str (m_gameId data) then w
      else
        (let p = (case m_payload data of None \<Rightarrow> no_payload | Some p' \<Rightarrow> p')
         in if m_type data = Some ''words'' then sendWholeGameState api c w
            else if m_type data = Some ''changePlayer''
              then snd (handlePlayerChanged api c (p_playerName p) (p_facebookId p)
                          (p_facebookImage p) (p_token p) w)
            else if m_type data = Some ''changeTeam''
              then snd (handleTeamChanged api c
                          (Some (if p_teamId p = Some ''one'' then 1 else 2)) w)
            else if m_type data = Some ''guess'' then makeGuess api c (p_word p) w
            else if m_type data = Some ''giveClue'' then giveClue api c (p_word p) (p_number p) w
            else if m_type data = Some ''endTurn'' then endTurn api (m_gameId data) w
            else if m_type data = Some ''startNewGame'' then handleStartNewGame api c w
            else w))"

text \<open>
  The \<^verbatim>\<open>message\<close> listener. \<^verbatim>\<open>JSON.parse\<close> is the platform's: it is a parameter, \<open>None\<close>
  where it throws its \<^verbatim>\<open>SyntaxError\<close>. The call is not inside any \<^verbatim>\<open>try\<close>, so the
  exception leaves the listener.
\<close>

definition on_message ::
  "(string \<Rightarrow> inbound option) \<Rightarrow> ('d, 'm, 'v, 'g) db_api \<Rightarrow> cid \<Rightarrow> string \<Rightarrow>
     ('d, ('v, 'g) event) world \<Rightarrow> ('d, ('v, 'g) event) world" where
  "on_message JSON_parse api c raw w =
     (case JSON_parse raw of
        None \<Rightarrow> w\<lparr>escaped := escaped w @ [Uncaught SyntaxError]\<rparr>
      | Some parsedData \<Rightarrow>
          (let initial = handleInitialRequest api c parsedData w
           in if fst initial then handleRequest api c parsedData (snd initial)
              else snd initial))"

section \<open>A reference store\<close>

text \<open>
  \<^verbatim>\<open>redis.js\<close> is not among the sources. The store below follows the README's "Redis Data
  Structure" key by key, a game id \<open>g\<close> standing for the keys \<^verbatim>\<open>game:{g}...\<close>, and its
  operations follow section 4.3 and 4.4 of the specification.
\<close>

datatype role = Agent | Bystander | Assassin | Decoy

record word_entry =
  roleTeamOne :: role
  roleTeamTwo :: role
  revealedTeamOne :: bool
  revealedTeamTwo :: bool

text \<open>What a \<^verbatim>\<open>Game\<close> object carries into \<^verbatim>\<open>db.setGame\<close>: the word table and the counters.\<close>

record game_data =
  gd_words :: "(string \<times> word_entry) list"
  gd_turnsLeft :: int
  gd_agentsLeftTeamOne :: int
  gd_agentsLeftTeamTwo :: int

record player_rec =
  pl_name :: "string option"
  pl_facebookId :: "string option"
  pl_facebookUrl :: "string option"

record store =
  st_exists :: "string \<Rightarrow> bool"
  st_turnsLeft :: "string \<Rightarrow> int"
  st_agentsLeft :: "string \<Rightarrow> nat \<Rightarrow> int"
  st_team :: "string \<Rightarrow> nat \<Rightarrow> nat list"
  st_tokens :: "string \<Rightarrow> nat \<Rightarrow> string list"
  st_words :: "string \<Rightarrow> (string \<times> word_entry) list"
  st_turn :: "string \<Rightarrow> turn option"
  st_facebook :: "string \<Rightarrow> nat option"
  st_token :: "string \<Rightarrow> nat option"
  st_playerIds :: nat
  st_player :: "nat \<Rightarrow> player_rec option"
  st_player_games :: "nat \<Rightarrow> string list"

text \<open>The fields of a guess result beside \<^verbatim>\<open>turnsLeft\<close>: "the role plus updated counters".\<close>

record guess_info =
  gi_word :: string
  gi_role :: role
  gi_guessesLeft :: int

text \<open>Modelled from the spec: the word table's columns \<^verbatim>\<open>roleForTeamOne\<close> and
  \<^verbatim>\<open>roleForTeamTwo\<close> of section 3, read for team 1 or 2 (\<^verbatim>\<open>redis.js\<close> and \<^verbatim>\<open>game.js\<close> are
  absent).\<close>

definition role_for :: "nat \<Rightarrow> word_entry \<Rightarrow> role" where
  "role_for t e = (if t = 1 then roleTeamOne e else roleTeamTwo e)"

text \<open>Modelled from the spec: the word table's columns \<^verbatim>\<open>revealedForTeamOne\<close> and
  \<^verbatim>\<open>revealedForTeamTwo\<close> of section 3, read for team 1 or 2.\<close>

definition revealed_for :: "nat \<Rightarrow> word_entry \<Rightarrow> bool" where
  "revealed_for t e = (if t = 1 then revealedTeamOne e else revealedTeamTwo e)"

text \<open>Modelled from the spec: \<^verbatim>\<open>recordGuess\<close> "marks revealed-for-that-team" and "never
  mutates the opposing team's reveal flag" (section 4.3).\<close>

definition reveal_for :: "nat \<Rightarrow> word_entry \<Rightarrow> word_entry" where
  "reveal_for t e = (if t = 1 then e\<lparr>revealedTeamOne := True\<rparr> else e\<lparr>revealedTeamTwo := True\<rparr>)"

text \<open>Modelled from the spec: the invariant of section 3, "agentsLeft equals the count of
  words revealed-to-that-team whose role for that team is agent" (\<^verbatim>\<open>redis.js\<close> is absent).\<close>

definition agents_count :: "nat \<Rightarrow> (string \<times> word_entry) list \<Rightarrow> int" where
  "agents_count t tab =
     int (length (filter (\<lambda>we. revealed_for t (snd we) \<and> role_for t (snd we) = Agent) tab))"

text \<open>Modelled from the spec: \<^verbatim>\<open>db.getGame\<close> and \<^verbatim>\<open>db.setGame\<close> (\<^verbatim>\<open>redis.js\<close> is absent).
  Replacing a game resets the word table, the counters and the turn record; the team
  and token sets are other keys and stay (section 3, Lifecycle).\<close>

definition ref_getGame :: "string option \<Rightarrow> store \<Rightarrow> game_data option" where
  "ref_getGame g s =
     (if st_exists s (js_str g)
      then Some \<lparr>gd_words = st_words s (js_str g), gd_turnsLeft = st_turnsLeft s (js_str g),
                 gd_agentsLeftTeamOne = st_agentsLeft s (js_str g) 1,
                 gd_agentsLeftTeamTwo = st_agentsLeft s (js_str g) 2\<rparr>
      else None)"

text \<open>Modelled from the spec: \<^verbatim>\<open>db.setGame\<close> (\<^verbatim>\<open>redis.js\<close> is absent), the full game
  replacement of section 3: table, counters and turn record are those of the new game.\<close>

definition ref_setGame :: "string option \<Rightarrow> game_data \<Rightarrow> store \<Rightarrow> store" where
  "ref_setGame g m s =
     s\<lparr>st_exists := (st_exists s)(js_str g := True),
       st_words := (st_words s)(js_str g := gd_words m),
       st_turnsLeft := (st_turnsLeft s)(js_str g := gd_turnsLeft m),
       st_agentsLeft := (st_agentsLeft s)(js_str g :=
          (\<lambda>t. if t = 1 then gd_agentsLeftTeamOne m else gd_agentsLeftTeamTwo m)),
       st_turn := (st_turn s)(js_str g := None)\<rparr>"

text \<open>Modelled from the spec: the set \<^verbatim>\<open>game:{g}:tokens:{t}\<close> read by
  \<^verbatim>\<open>db.getTokensOnTeam\<close> (\<^verbatim>\<open>redis.js\<close> is absent).\<close>

definition ref_getTokensOnTeam :: "string option \<Rightarrow> nat \<Rightarrow> store \<Rightarrow> string list" where
  "ref_getTokensOnTeam g t s = st_tokens s (js_str g) t"

text \<open>Modelled from the spec: \<^verbatim>\<open>removeFromTeam(playerId, teamId, token?)\<close>, "removes
  membership and token association; no-op if not a member" (\<^verbatim>\<open>redis.js\<close> is absent). An
  undefined player or team id names no member and no team set.\<close>

definition ref_removePlayerFromTeam ::
  "string option \<Rightarrow> nat option \<Rightarrow> nat option \<Rightarrow> string option \<Rightarrow> store \<Rightarrow> store" where
  "ref_removePlayerFromTeam g pid t tok s =
     (case pid of
        None \<Rightarrow> s
      | Some p \<Rightarrow>
         (case t of
            None \<Rightarrow> s
          | Some t' \<Rightarrow>
              s\<lparr>st_team := (st_team s)(js_str g :=
                   (st_team s (js_str g))(t' := removeAll p (st_team s (js_str g) t'))),
                st_tokens := (st_tokens s)(js_str g :=
                   (st_tokens s (js_str g))(t' :=
                      (case tok of None \<Rightarrow> st_tokens s (js_str g) t'
                       | Some k \<Rightarrow> removeAll k (st_tokens s (js_str g) t')))),
                st_player_games := (st_player_games s)(p :=
                   removeAll (js_str g) (st_player_games s p))\<rparr>))"

text \<open>Modelled from the spec: section 4.2 (2), "resolve or create the durable Player for the
  new anchor set, merging rather than duplicating when an anchor matches an existing
  Player" (\<^verbatim>\<open>db.setPlayer\<close> of the absent \<^verbatim>\<open>redis.js\<close>).\<close>

definition ref_setPlayer ::
  "string option \<Rightarrow> string option \<Rightarrow> string option \<Rightarrow> string option \<Rightarrow> store \<Rightarrow>
     nat option \<times> store" where
  "ref_setPlayer name fb url tok s =
     (let byFacebook = (if truthy_str fb then st_facebook s (js_str fb) else None);
          byToken = (if truthy_str tok then st_token s (js_str tok) else None);
          pid = (case byFacebook of
                   Some p \<Rightarrow> p
                 | None \<Rightarrow> (case byToken of Some p \<Rightarrow> p | None \<Rightarrow> st_playerIds s + 1))
      in (Some pid,
          s\<lparr>st_playerIds := max (st_playerIds s) pid,
            st_player := (st_player s)(pid \<mapsto>
               \<lparr>pl_name = name, pl_facebookId = fb, pl_facebookUrl = url\<rparr>),
            st_facebook := (if truthy_str fb then (st_facebook s)(js_str fb \<mapsto> pid)
                            else st_facebook s),
            st_token := (if truthy_str tok then (st_token s)(js_str tok \<mapsto> pid)
                         else st_token s)\<rparr>))"

text \<open>Modelled from the spec: the name of the durable Player of section 3, read by
  \<^verbatim>\<open>db.getPlayer\<close> (\<^verbatim>\<open>redis.js\<close> is absent); no player for an undefined or unknown id.\<close>

definition ref_getPlayer :: "nat option \<Rightarrow> store \<Rightarrow> string option option" where
  "ref_getPlayer pid s =
     (case pid of None \<Rightarrow> None | Some p \<Rightarrow> map_option pl_name (st_player s p))"

text \<open>Modelled from the spec: \<^verbatim>\<open>teamOf(playerId)\<close> and \<^verbatim>\<open>addToTeam(playerId, token,
  desiredTeamId?)\<close> of section 4.3 (\<^verbatim>\<open>redis.js\<close> is absent); without a desired team the
  team with fewer members is picked.\<close>

definition ref_getTeamIdForPlayerId :: "string option \<Rightarrow> nat option \<Rightarrow> store \<Rightarrow> nat option" where
  "ref_getTeamIdForPlayerId g pid s =
     (case pid of
        None \<Rightarrow> None
      | Some p \<Rightarrow>
          if p \<in> set (st_team s (js_str g) 1) then Some 1
          else if p \<in> set (st_team s (js_str g) 2) then Some 2
          else None)"

text \<open>Modelled from the spec: \<^verbatim>\<open>addToTeam(playerId, token, desiredTeamId?)\<close> of section 4.3
  (\<^verbatim>\<open>db.addPlayerToTeam\<close> of the absent \<^verbatim>\<open>redis.js\<close>): the player joins the desired team,
  or the smaller one, with its token; the team is returned.\<close>

definition ref_addPlayerToTeam ::
  "string option \<Rightarrow> nat option \<Rightarrow> string option \<Rightarrow> nat option \<Rightarrow> store \<Rightarrow> nat option \<times> store" where
  "ref_addPlayerToTeam g pid tok desired s =
     (case pid of
        None \<Rightarrow> (None, s)
      | Some p \<Rightarrow>
         (let t = (if desired = Some 1 then 1 else if desired = Some 2 then 2
                   else if length (st_team s (js_str g) 2) < length (st_team s (js_str g) 1)
                   then 2 else 1)
          in (Some t,
              s\<lparr>st_team := (st_team s)(js_str g :=
                   (st_team s (js_str g))(t := List.insert p (st_team s (js_str g) t))),
                st_tokens := (st_tokens s)(js_str g :=
                   (st_tokens s (js_str g))(t :=
                      (case tok of None \<Rightarrow> st_tokens s (js_str g) t
                       | Some k \<Rightarrow> List.insert k (st_tokens s (js_str g) t)))),
                st_player_games := (st_player_games s)(p :=
                   List.insert (js_str g) (st_player_games s p))\<rparr>)))"

text \<open>Modelled from the spec: the counters \<^verbatim>\<open>agentsLeftTeamOne\<close> and \<^verbatim>\<open>agentsLeftTeamTwo\<close> of
  the hash \<^verbatim>\<open>game:{g}\<close>, read by \<^verbatim>\<open>db.getAgentsLeft\<close> (\<^verbatim>\<open>redis.js\<close> is absent).\<close>

definition ref_getAgentsLeft :: "string option \<Rightarrow> store \<Rightarrow> int \<times> int" where
  "ref_getAgentsLeft g s = (st_agentsLeft s (js_str g) 1, st_agentsLeft s (js_str g) 2)"

text \<open>Modelled from the spec: \<^verbatim>\<open>wordsView(teamId)\<close>, "the word table filtered to that team's
  own roles and reveal flags only" (the projections \<^verbatim>\<open>db.getWords\<close>,
  \<^verbatim>\<open>Game.getViewForPlayer\<close> and \<^verbatim>\<open>Game.getWords\<close> are absent). For team 1 or 2 each word
  comes with that team's role and flag; for a caller without a team there is no such
  column, and the words come alone.\<close>

definition wordsView ::
  "nat option \<Rightarrow> (string \<times> word_entry) list \<Rightarrow> (string \<times> (role \<times> bool) option) list" where
  "wordsView t tab =
     map (\<lambda>we. (fst we,
                 (case t of
                    None \<Rightarrow> None
                  | Some n \<Rightarrow> if n = 1 \<or> n = 2
                              then Some (role_for n (snd we), revealed_for n (snd we))
                              else None)))
       tab"

text \<open>Modelled from the spec: \<^verbatim>\<open>db.getWords(gameId, teamId)\<close> is \<^verbatim>\<open>wordsView\<close> on the hash
  \<^verbatim>\<open>game:{g}:words\<close> (\<^verbatim>\<open>redis.js\<close> is absent).\<close>

definition ref_getWords ::
  "string option \<Rightarrow> nat option \<Rightarrow> store \<Rightarrow> (string \<times> (role \<times> bool) option) list" where
  "ref_getWords g t s = wordsView t (st_words s (js_str g))"

text \<open>Modelled from the spec: the counter \<^verbatim>\<open>turnsLeft\<close> of the hash \<^verbatim>\<open>game:{g}\<close> and the
  hash \<^verbatim>\<open>game:{g}:turn\<close> (\<^verbatim>\<open>redis.js\<close> is absent). \<^verbatim>\<open>db.setTurn\<close> writes the four fields
  the README lists from its four arguments; called with the game id alone, as \<^verbatim>\<open>endTurn\<close>
  does, it is the specification's \<^verbatim>\<open>clearTurn\<close>.\<close>

definition ref_getTurnsLeft :: "string option \<Rightarrow> store \<Rightarrow> int" where
  "ref_getTurnsLeft g s = st_turnsLeft s (js_str g)"

text \<open>Modelled from the spec: \<^verbatim>\<open>db.setTurnsLeft\<close> writes the counter \<^verbatim>\<open>turnsLeft\<close> (\<^verbatim>\<open>redis.js\<close>
  is absent).\<close>

definition ref_setTurnsLeft :: "string option \<Rightarrow> int \<Rightarrow> store \<Rightarrow> store" where
  "ref_setTurnsLeft g n s = s\<lparr>st_turnsLeft := (st_turnsLeft s)(js_str g := n)\<rparr>"

text \<open>Modelled from the spec: \<^verbatim>\<open>db.getTurn\<close> reads the turn record, none when Idle
  (\<^verbatim>\<open>redis.js\<close> is absent).\<close>

definition ref_getTurn :: "string option \<Rightarrow> store \<Rightarrow> turn option" where
  "ref_getTurn g s = st_turn s (js_str g)"

text \<open>Modelled from the spec: \<^verbatim>\<open>db.setTurn\<close> installs the turn record from its arguments, and
  clears it when it is given none (\<^verbatim>\<open>redis.js\<close> is absent).\<close>

definition ref_setTurn ::
  "string option \<Rightarrow> nat option \<Rightarrow> string option \<Rightarrow> int option \<Rightarrow> int option \<Rightarrow> store \<Rightarrow> store" where
  "ref_setTurn g team word' number left s =
     s\<lparr>st_turn := (st_turn s)(js_str g :=
         (if team = None \<and> word' = None \<and> number = None \<and> left = None then None
          else Some \<lparr>clueGiverTeamId = team, clueWord = word', clueNumber = number,
                     guessesLeft = left\<rparr>))\<rparr>"

text \<open>Modelled from the spec: \<^verbatim>\<open>recordGuess(teamId, word)\<close> of section 4.3 and
  \<^verbatim>\<open>guess(team, word)\<close> of section 4.4 (\<^verbatim>\<open>db.makeGuess\<close> of the absent \<^verbatim>\<open>redis.js\<close>). A word
  already revealed for the team, an unknown word, a caller without a team and a game
  without a clue give no result and change nothing. Otherwise the word is revealed for
  that team only, the team's agentsLeft is recomputed, guessesLeft drops by one, and the
  turn ends (turn record cleared, turnsLeft minus one) when no guess is left or the role
  is not agent.\<close>

definition ref_makeGuess ::
  "string option \<Rightarrow> nat option \<Rightarrow> string option \<Rightarrow> store \<Rightarrow> (int \<times> guess_info) option \<times> store" where
  "ref_makeGuess g team word' s =
     (case team of
        None \<Rightarrow> (None, s)
      | Some t \<Rightarrow>
         (case word' of
            None \<Rightarrow> (None, s)
          | Some wd \<Rightarrow>
             (case map_of (st_words s (js_str g)) wd of
                None \<Rightarrow> (None, s)
              | Some e \<Rightarrow>
                 (case st_turn s (js_str g) of
                    None \<Rightarrow> (None, s)
                  | Some tr \<Rightarrow>
                      if (t \<noteq> 1 \<and> t \<noteq> 2) \<or> revealed_for t e then (None, s)
                      else
                        (let tab = map (\<lambda>we. if fst we = wd then (wd, reveal_for t (snd we)) else we)
                                     (st_words s (js_str g));
                             left = (case guessesLeft tr of None \<Rightarrow> 0 | Some n \<Rightarrow> n) - 1;
                             ends = (left \<le> 0 \<or> role_for t e \<noteq> Agent);
                             turns = (if ends then st_turnsLeft s (js_str g) - 1
                                      else st_turnsLeft s (js_str g))
                         in (Some (turns, \<lparr>gi_word = wd, gi_role = role_for t e,
                                            gi_guessesLeft = left\<rparr>),
                             s\<lparr>st_words := (st_words s)(js_str g := tab),
                               st_agentsLeft := (st_agentsLeft s)(js_str g :=
                                  (st_agentsLeft s (js_str g))(t := agents_count t tab)),
                               st_turn := (st_turn s)(js_str g :=
                                  (if ends then None else Some (tr\<lparr>guessesLeft := Some left\<rparr>))),
                               st_turnsLeft := (st_turnsLeft s)(js_str g := turns)\<rparr>))))))"

text \<open>Modelled from the spec: the reference instance of the store interface, made of the
  operations above; \<open>fresh\<close> is the object \<^verbatim>\<open>new Game()\<close> draws.\<close>

definition ref_db ::
  "game_data \<Rightarrow> (store, game_data, (string \<times> (role \<times> bool) option) list, guess_info) db_api" where
  "ref_db fresh =
     \<lparr>new_Game = fresh, db_getGame = ref_getGame, db_setGame = ref_setGame,
      db_getTokensOnTeam = ref_getTokensOnTeam,
      db_removePlayerFromTeam = ref_removePlayerFromTeam, db_setPlayer = ref_setPlayer,
      db_getPlayer = ref_getPlayer, db_getTeamIdForPlayerId = ref_getTeamIdForPlayerId,
      db_addPlayerToTeam = ref_addPlayerToTeam, db_getAgentsLeft = ref_getAgentsLeft,
      db_getWords = ref_getWords, db_getTurnsLeft = ref_getTurnsLeft,
      db_setTurnsLeft = ref_setTurnsLeft, db_setTurn = ref_setTurn, db_getTurn = ref_getTurn,
      db_makeGuess = ref_makeGuess\<rparr>"

section \<open>The in-memory server (src/index.js)\<close>

subsection \<open>The Game interface\<close>

text \<open>The object \<^verbatim>\<open>game.giveClueForTurn\<close> and \<^verbatim>\<open>game.getCurrentClue\<close> return.\<close>

record clue =
  cl_playerGivingClue :: "string option"
  cl_guessesLeft :: "int option"
  cl_clueWord :: "string option"

text \<open>
  The methods of a \<^verbatim>\<open>Game\<close> object (\<^verbatim>\<open>game.js\<close>, absent) that the server calls, and the
  property \<^verbatim>\<open>currentTurn\<close> it reads. A method that mutates the object returns the new
  one. A guess result is its \<^verbatim>\<open>playerGuessingChanged\<close> and the rest.
\<close>

record ('gm, 'v, 'g) game_api =
  game_new :: 'gm
  game_getPlayerName :: "string option \<Rightarrow> 'gm \<Rightarrow> string option"
  game_getTokenForPlayer :: "string option \<Rightarrow> 'gm \<Rightarrow> string option"
  game_setPlayerName ::
    "string option \<Rightarrow> string option \<Rightarrow> string option \<Rightarrow> 'gm \<Rightarrow> string option \<times> 'gm"
  game_getTurnsLeft :: "'gm \<Rightarrow> int"
  game_giveClueForTurn ::
    "string option \<Rightarrow> string option \<Rightarrow> int option \<Rightarrow> 'gm \<Rightarrow> clue option \<times> 'gm"
  game_endTurn :: "'gm \<Rightarrow> 'gm"
  game_guess :: "string option \<Rightarrow> string option \<Rightarrow> 'gm \<Rightarrow> (bool \<times> 'g) option \<times> 'gm"
  game_getViewForPlayer :: "string option \<Rightarrow> 'gm \<Rightarrow> 'v"
  game_getWords :: "'gm \<Rightarrow> 'v"
  game_getCurrentClue :: "'gm \<Rightarrow> clue option"
  game_currentTurn :: "'gm \<Rightarrow> clue option"

text \<open>
  Outbound events of this server: \<open>PlayerJoined_mem\<close> carries count, playerName, player;
  \<open>PlayerLeft_mem\<close> count, playerName; \<open>Words_mem\<close> gameId, words; \<open>ClueGiven_mem\<close>
  playerGivingClue, number, word; \<open>Guess_mem\<close> the guess result and gameId.
\<close>

datatype ('v, 'g) event_mem =
    PlayerJoined_mem int "string option" "string option"
  | PlayerLeft_mem int "string option"
  | PlayerChanged_mem "string option"
  | Words_mem "string option" 'v
  | Turns_mem int
  | ClueGiven_mem "string option" "int option" "string option"
  | Guess_mem "(bool \<times> 'g) option" "string option"

subsection \<open>send, broadcast, iOSNotify, getOrCreateGame\<close>

text \<open>Here the store of the state is the object \<^verbatim>\<open>games\<close>, and a message has no top-level
  \<^verbatim>\<open>gameId\<close>.\<close>

definition send_mem :: "cid \<Rightarrow> 'e \<Rightarrow> ('d, 'e) world \<Rightarrow> ('d, 'e) world" where
  "send_mem client data w =
     (if readyState (conns w client) = 1
      then w\<lparr>outbox := outbox w @ [(client, None, data)]\<rparr>
      else w)"

definition broadcast_mem :: "string option \<Rightarrow> 'e \<Rightarrow> ('d, 'e) world \<Rightarrow> ('d, 'e) world" where
  "broadcast_mem g data w =
     (case sockets w (js_str g) of
        None \<Rightarrow> w
      | Some clients \<Rightarrow>
          w\<lparr>outbox := outbox w @
              map (\<lambda>client. (client, None, data))
                (filter (\<lambda>client. readyState (conns w client) = 1) clients)\<rparr>)"

definition getOrCreateGame_mem ::
  "('gm, 'v, 'g) game_api \<Rightarrow> string option \<Rightarrow> (string \<Rightarrow> 'gm option, 'e) world \<Rightarrow>
     'gm \<times> (string \<Rightarrow> 'gm option, 'e) world" where
  "getOrCreateGame_mem api hash w =
     (case db w (js_str hash) of
        Some game \<Rightarrow> (game, w)
      | None \<Rightarrow> (game_new api, w\<lparr>db := (db w)(js_str hash \<mapsto> game_new api)\<rparr>))"

text \<open>A method call on the object \<^verbatim>\<open>getOrCreateGame(hash)\<close> returns: the object in
  \<^verbatim>\<open>games\<close> is replaced by the mutated one.\<close>

definition put_game ::
  "string option \<Rightarrow> 'gm \<Rightarrow> (string \<Rightarrow> 'gm option, 'e) world \<Rightarrow> (string \<Rightarrow> 'gm option, 'e) world" where
  "put_game hash game w = w\<lparr>db := (db w)(js_str hash \<mapsto> game)\<rparr>"

text \<open>The registration id is one token (or \<^verbatim>\<open>undefined\<close>) when a player is named, the list
  of the truthy tokens of both players otherwise; the service is called in every case.\<close>

definition iOSNotify_mem ::
  "('gm, 'v, 'g) game_api \<Rightarrow> string option \<Rightarrow> string option \<Rightarrow> string \<Rightarrow> string \<Rightarrow>
     (string \<Rightarrow> 'gm option, 'e) world \<Rightarrow> (string \<Rightarrow> 'gm option, 'e) world" where
  "iOSNotify_mem api g playerId' title body w =
     (let got = getOrCreateGame_mem api g w;
          game = fst got;
          registrationIds =
            (if truthy_str playerId'
             then (case game_getTokenForPlayer api playerId' game of None \<Rightarrow> [] | Some k \<Rightarrow> [k])
             else map js_str
                    (filter truthy_str
                       [game_getTokenForPlayer api (Some ''one'') game,
                        game_getTokenForPlayer api (Some ''two'') game]))
      in (snd got)\<lparr>pushes := pushes (snd got) @
            [\<lparr>push_tokens = registrationIds, push_title = title, push_body = body,
              push_gameId = g\<rparr>]\<rparr>)"

subsection \<open>Action handlers\<close>

text \<open>\<^verbatim>\<open>clue.playerGivingClue\<close> throws when \<^verbatim>\<open>giveClueForTurn\<close> returns no object.\<close>

definition giveClue_mem ::
  "('gm, 'v, 'g) game_api \<Rightarrow> string option \<Rightarrow> string option \<Rightarrow> string option \<Rightarrow> int option \<Rightarrow>
     (string \<Rightarrow> 'gm option, ('v, 'g) event_mem) world \<Rightarrow>
     (string \<Rightarrow> 'gm option, ('v, 'g) event_mem) world" where
  "giveClue_mem api g player' word number w =
     (let got = getOrCreateGame_mem api g w;
          turnsLeftBefore = game_getTurnsLeft api (fst got);
          given = game_giveClueForTurn api player' word number (fst got);
          game = snd given;
          w1 = put_game g game (snd got);
          turnsLeftAfter = game_getTurnsLeft api game;
          w2 = (if turnsLeftBefore \<noteq> turnsLeftAfter
                then broadcast_mem g (Turns_mem turnsLeftAfter) w1 else w1);
          otherPlayer = (if player' = Some ''one'' then ''two'' else ''one'');
          w3 = iOSNotify_mem api g (Some otherPlayer) ''A clue has been given in your game''
                 (js_str (game_getPlayerName api player' game) @ '' gave the clue '' @ dq @
                  js_str word @ dq @ '' - '' @ js_int number) w2
      in case fst given of
           None \<Rightarrow> w3\<lparr>escaped := escaped w3 @ [Uncaught TypeError]\<rparr>
         | Some clue \<Rightarrow>
             broadcast_mem g
               (ClueGiven_mem (cl_playerGivingClue clue) (cl_guessesLeft clue) (cl_clueWord clue))
               w3)"

definition endTurn_mem ::
  "('gm, 'v, 'g) game_api \<Rightarrow> string option \<Rightarrow>
     (string \<Rightarrow> 'gm option, ('v, 'g) event_mem) world \<Rightarrow>
     (string \<Rightarrow> 'gm option, ('v, 'g) event_mem) world" where
  "endTurn_mem api g w =
     (let got = getOrCreateGame_mem api g w;
          turnsLeftBefore = game_getTurnsLeft api (fst got);
          game = game_endTurn api (fst got);
          w1 = put_game g game (snd got);
          turnsLeftAfter = game_getTurnsLeft api game
      in if turnsLeftBefore \<noteq> turnsLeftAfter
         then broadcast_mem g (Turns_mem turnsLeftAfter) w1 else w1)"

definition getWordsForPlayer ::
  "('gm, 'v, 'g) game_api \<Rightarrow> string option \<Rightarrow> string option \<Rightarrow>
     (string \<Rightarrow> 'gm option, 'e) world \<Rightarrow> 'v \<times> (string \<Rightarrow> 'gm option, 'e) world" where
  "getWordsForPlayer api g player' w =
     (let got = getOrCreateGame_mem api g w
      in (if truthy_str player' then game_getViewForPlayer api player' (fst got)
          else game_getWords api (fst got),
          snd got))"

definition makeGuess_mem ::
  "('gm, 'v, 'g) game_api \<Rightarrow> string option \<Rightarrow> string option \<Rightarrow> string option \<Rightarrow>
     (string \<Rightarrow> 'gm option, ('v, 'g) event_mem) world \<Rightarrow>
     (string \<Rightarrow> 'gm option, ('v, 'g) event_mem) world" where
  "makeGuess_mem api g word player' w =
     (let got = getOrCreateGame_mem api g w;
          clueWord' = (case game_currentTurn api (fst got) of
                         None \<Rightarrow> None | Some turn' \<Rightarrow> cl_clueWord turn');
          turnsLeftBefore = game_getTurnsLeft api (fst got);
          guessed = game_guess api word player' (fst got);
          game = snd guessed;
          w1 = put_game g game (snd got);
          turnsLeftAfter = game_getTurnsLeft api game;
          changed = (case fst guessed of None \<Rightarrow> False | Some guess \<Rightarrow> fst guess);
          w2 = (if changed then broadcast_mem g (Turns_mem (turnsLeftBefore - 1)) w1 else w1);
          w3 = broadcast_mem g (Guess_mem (fst guessed) g) w2;
          otherPlayer = (if player' = Some ''one'' then ''two'' else ''one'');
          clueText = (if truthy_str clueWord' then '' for the clue '' @ dq @ js_str clueWord' @ dq
                      else []);
          w4 = iOSNotify_mem api g (Some otherPlayer) ''A guess has been made in your game''
                 (js_str (game_getPlayerName api player' game) @ '' guessed '' @ dq @ js_str word @
                  dq @ clueText) w3
      in if (fst guessed \<noteq> None \<and> \<not> changed \<and> turnsLeftBefore \<noteq> turnsLeftAfter) \<or>
            turnsLeftBefore - 1 > turnsLeftAfter
         then broadcast_mem g (Turns_mem turnsLeftAfter) w4 else w4)"

definition maybeSendCurrentClue_mem ::
  "('gm, 'v, 'g) game_api \<Rightarrow> cid \<Rightarrow> string option \<Rightarrow>
     (string \<Rightarrow> 'gm option, ('v, 'g) event_mem) world \<Rightarrow>
     (string \<Rightarrow> 'gm option, ('v, 'g) event_mem) world" where
  "maybeSendCurrentClue_mem api c g w =
     (let got = getOrCreateGame_mem api g w
      in case game_getCurrentClue api (fst got) of
           None \<Rightarrow> snd got
         | Some clue \<Rightarrow>
             send_mem c
               (ClueGiven_mem (cl_playerGivingClue clue) (cl_guessesLeft clue) (cl_clueWord clue))
               (snd got))"

definition sendWholeGameState_mem ::
  "('gm, 'v, 'g) game_api \<Rightarrow> cid \<Rightarrow> string option \<Rightarrow>
     (string \<Rightarrow> 'gm option, ('v, 'g) event_mem) world \<Rightarrow>
     (string \<Rightarrow> 'gm option, ('v, 'g) event_mem) world" where
  "sendWholeGameState_mem api c g w =
     (let viewed = getWordsForPlayer api g (player (conns w c)) w;
          w1 = send_mem c (Words_mem g (fst viewed)) (snd viewed);
          got = getOrCreateGame_mem api g w1;
          w2 = send_mem c (Turns_mem (game_getTurnsLeft api (fst got))) (snd got)
      in maybeSendCurrentClue_mem api c g w2)"

subsection \<open>Joining, leaving, changing player, new game\<close>

text \<open>The truthy-or-falsy value of \<^verbatim>\<open>a && b\<close>.\<close>

definition js_and :: "string option \<Rightarrow> string option \<Rightarrow> string option" where
  "js_and a b = (if truthy_str a then b else a)"

text \<open>\<^verbatim>\<open>handlePlayerLeft\<close>: \<^verbatim>\<open>sockets[ws.gameId].delete\<close> throws when the set is undefined
  (both callers test for it first).\<close>

definition handlePlayerLeft_mem ::
  "('gm, 'v, 'g) game_api \<Rightarrow> cid \<Rightarrow>
     (string \<Rightarrow> 'gm option, ('v, 'g) event_mem) world \<Rightarrow>
     (string \<Rightarrow> 'gm option, ('v, 'g) event_mem) world" where
  "handlePlayerLeft_mem api c w =
     (let ws = conns w c in
      case sockets w (js_str (gameId ws)) of
        None \<Rightarrow> w\<lparr>escaped := escaped w @ [Uncaught TypeError]\<rparr>
      | Some clients \<Rightarrow>
          (let w1 = w\<lparr>sockets := (sockets w)(js_str (gameId ws) \<mapsto> removeAll c clients)\<rparr>;
               w2 = broadcast_mem (gameId ws)
                      (PlayerLeft_mem (int (length (removeAll c clients))) (playerName ws)) w1;
               got = getOrCreateGame_mem api (gameId ws) w2;
               w3 = (if \<not> truthy_str (game_getTokenForPlayer api (player ws) (fst got))
                     then put_game (gameId ws)
                            (snd (game_setPlayerName api (Some []) (player ws) None (fst got)))
                            (snd got)
                     else snd got)
           in w3\<lparr>conns := (conns w3)(c := ws\<lparr>gameId := None, player := None,
                                                playerName := None\<rparr>)\<rparr>))"

definition replay_roster_mem ::
  "cid \<Rightarrow> cid list \<Rightarrow> ('d, ('v, 'g) event_mem) world \<Rightarrow> ('d, ('v, 'g) event_mem) world" where
  "replay_roster_mem c clients w =
     foldl (\<lambda>acc client.
              if readyState (conns acc client) = 1
              then send_mem c (PlayerJoined_mem (int (length clients))
                                 (playerName (conns acc client)) (player (conns acc client))) acc
              else acc) w clients"

definition handlePlayerJoined ::
  "('gm, 'v, 'g) game_api \<Rightarrow> cid \<Rightarrow> string option \<Rightarrow> string option \<Rightarrow> string option \<Rightarrow>
     (string \<Rightarrow> 'gm option, ('v, 'g) event_mem) world \<Rightarrow>
     (string \<Rightarrow> 'gm option, ('v, 'g) event_mem) world" where
  "handlePlayerJoined api c g playerName' token' w =
     (let w1 = (case sockets w (js_str g) of
                  Some clients \<Rightarrow>
                    (let r = replay_roster_mem c clients w
                     in r\<lparr>sockets := (sockets r)(js_str g \<mapsto>
                             (if c \<in> set clients then clients else clients @ [c]))\<rparr>)
                | None \<Rightarrow> w\<lparr>sockets := (sockets w)(js_str g \<mapsto> [c])\<rparr>);
          w2 = w1\<lparr>conns := (conns w1)(c := (conns w1 c)\<lparr>gameId := g, playerName := playerName'\<rparr>)\<rparr>;
          got = getOrCreateGame_mem api g w2;
          named = game_setPlayerName api playerName' None token' (fst got);
          w3 = put_game g (snd named) (snd got);
          count = (case sockets w3 (js_str g) of None \<Rightarrow> 0 | Some clients \<Rightarrow> int (length clients));
          w4 = broadcast_mem g (PlayerJoined_mem count playerName' (fst named)) w3
      in if player (conns w4 c) \<noteq> fst named
         then send_mem c (PlayerChanged_mem (fst named))
                (w4\<lparr>conns := (conns w4)(c := (conns w4 c)\<lparr>player := fst named\<rparr>)\<rparr>)
         else w4)"

text \<open>\<^verbatim>\<open>handlePlayerChanged\<close>: \<^verbatim>\<open>typeof playerName !== 'undefined'\<close> is \<open>playerName' \<noteq> None\<close>;
  reading \<^verbatim>\<open>sockets[ws.gameId].size\<close> throws when the set is undefined.\<close>

definition handlePlayerChanged_mem ::
  "('gm, 'v, 'g) game_api \<Rightarrow> cid \<Rightarrow> string option \<Rightarrow> string option \<Rightarrow> string option \<Rightarrow>
     (string \<Rightarrow> 'gm option, ('v, 'g) event_mem) world \<Rightarrow>
     (string \<Rightarrow> 'gm option, ('v, 'g) event_mem) world" where
  "handlePlayerChanged_mem api c player' playerName' token' w =
     (let ws = conns w c in
      if playerName ws = playerName' \<and> player' = player ws then w
      else
        (let finish = (\<lambda>p v.
               (let v1 = v\<lparr>conns := (conns v)(c := (conns v c)\<lparr>player := p\<rparr>)\<rparr>;
                    v2 = send_mem c (PlayerChanged_mem p) v1;
                    viewed = getWordsForPlayer api (gameId (conns v2 c)) (player (conns v2 c)) v2
                in send_mem c (Words_mem (gameId (conns v2 c)) (fst viewed)) (snd viewed)))
         in if playerName' \<noteq> None
            then
              (case sockets w (js_str (gameId ws)) of
                 None \<Rightarrow> w\<lparr>escaped := escaped w @ [Uncaught TypeError]\<rparr>
               | Some clients \<Rightarrow>
                   (let w1 = broadcast_mem (gameId ws)
                               (PlayerLeft_mem (int (length clients)) (playerName ws)) w;
                        got = getOrCreateGame_mem api (gameId ws) w1;
                        named = game_setPlayerName api playerName' (player ws) token' (fst got);
                        w2 = put_game (gameId ws) (snd named) (snd got);
                        w3 = w2\<lparr>conns := (conns w2)(c := (conns w2 c)\<lparr>playerName := playerName'\<rparr>)\<rparr>;
                        w4 = broadcast_mem (gameId ws)
                               (PlayerJoined_mem (int (length clients)) playerName' None) w3
                    in finish (fst named) w4))
            else finish player' w))"

text \<open>\<^verbatim>\<open>handleStartNewGame\<close>: \<^verbatim>\<open>sockets[gameId].forEach\<close> throws when the set is undefined.\<close>

definition handleStartNewGame_mem ::
  "('gm, 'v, 'g) game_api \<Rightarrow> string option \<Rightarrow>
     (string \<Rightarrow> 'gm option, ('v, 'g) event_mem) world \<Rightarrow>
     (string \<Rightarrow> 'gm option, ('v, 'g) event_mem) world" where
  "handleStartNewGame_mem api g w =
     (let got = getOrCreateGame_mem api g w;
          game = fst got;
          playerOneName = game_getPlayerName api (Some ''one'') game;
          playerTwoName = game_getPlayerName api (Some ''two'') game;
          playerOneToken = js_and playerOneName (game_getTokenForPlayer api (Some ''one'') game);
          playerTwoToken = js_and playerTwoName (game_getTokenForPlayer api (Some ''one'') game);
          game1 = game_new api;
          game2 = (if truthy_str playerOneName
                   then snd (game_setPlayerName api playerOneName (Some ''one'') playerOneToken game1)
                   else game1);
          game3 = (if truthy_str playerTwoToken
                   then snd (game_setPlayerName api playerTwoName (Some ''two'') playerTwoToken game2)
                   else game2);
          w1 = put_game g game3 (snd got)
      in case sockets w1 (js_str g) of
           None \<Rightarrow> w1\<lparr>escaped := escaped w1 @ [Uncaught TypeError]\<rparr>
         | Some clients \<Rightarrow>
             foldl (\<lambda>acc client. sendWholeGameState_mem api client g acc) w1 clients)"

subsection \<open>Inbound messages and disconnects\<close>

text \<open>The two guards at the head of \<^verbatim>\<open>handleRequest\<close>: a socket that names another game than
  the one it is in leaves that one, and a socket that is not in the set of the named game
  joins it.\<close>

definition enter_game_mem ::
  "('gm, 'v, 'g) game_api \<Rightarrow> cid \<Rightarrow> inbound \<Rightarrow>
     (string \<Rightarrow> 'gm option, ('v, 'g) event_mem) world \<Rightarrow>
     (string \<Rightarrow> 'gm option, ('v, 'g) event_mem) world" where
  "enter_game_mem api c data w =
     (let g = m_gameId data;
          p = (case m_payload data of None \<Rightarrow> no_payload | Some p' \<Rightarrow> p');
          w1 = (if truthy_str (gameId (conns w c)) \<and> gameId (conns w c) \<noteq> g \<and>
                   sockets w (js_str (gameId (conns w c))) \<noteq> None
                then handlePlayerLeft_mem api c w else w)
      in if (case sockets w1 (js_str g) of None \<Rightarrow> True | Some clients \<Rightarrow> c \<notin> set clients)
         then handlePlayerJoined api c g (p_playerName p) (p_token p) w1 else w1)"

definition handleRequest_mem ::
  "('gm, 'v, 'g) game_api \<Rightarrow> cid \<Rightarrow> inbound \<Rightarrow>
     (string \<Rightarrow> 'gm option, ('v, 'g) event_mem) world \<Rightarrow>
     (string \<Rightarrow> 'gm option, ('v, 'g) event_mem) world" where
  "handleRequest_mem api c data w =
     (if \<not> truthy_str (m_gameId data) then w
      else
        (let g = m_gameId data;
             p = (case m_payload data of None \<Rightarrow> no_payload | Some p' \<Rightarrow> p');
             w2 = enter_game_mem api c data w
         in if m_type data = Some ''words'' then sendWholeGameState_mem api c g w2
            else if m_type data = Some ''guess'' then makeGuess_mem api g (p_word p) (p_player p) w2
            else if m_type data = Some ''changePlayer''
              then handlePlayerChanged_mem api c (p_player p) (p_playerName p) (p_token p) w2
            else if m_type data = Some ''giveClue''
              then giveClue_mem api g (p_player p) (p_word p) (p_number p) w2
            else if m_type data = Some ''endTurn'' then endTurn_mem api g w2
            else if m_type data = Some ''startNewGame'' then handleStartNewGame_mem api g w2
            else w2))"

definition on_message_mem ::
  "(string \<Rightarrow> inbound option) \<Rightarrow> ('gm, 'v, 'g) game_api \<Rightarrow> cid \<Rightarrow> string \<Rightarrow>
     (string \<Rightarrow> 'gm option, ('v, 'g) event_mem) world \<Rightarrow>
     (string \<Rightarrow> 'gm option, ('v, 'g) event_mem) world" where
  "on_message_mem JSON_parse api c raw w =
     (case JSON_parse raw of
        None \<Rightarrow> w\<lparr>escaped := escaped w @ [Uncaught SyntaxError]\<rparr>
      | Some parsedData \<Rightarrow> handleRequest_mem api c parsedData w)"

definition on_close_mem ::
  "('gm, 'v, 'g) game_api \<Rightarrow> cid \<Rightarrow>
     (string \<Rightarrow> 'gm option, ('v, 'g) event_mem) world \<Rightarrow>
     (string \<Rightarrow> 'gm option, ('v, 'g) event_mem) world" where
  "on_close_mem api c w =
     (if truthy_str (gameId (conns w c)) \<and> sockets w (js_str (gameId (conns w c))) \<noteq> None
      then handlePlayerLeft_mem api c w else w)"

section \<open>A reference Game object\<close>

text \<open>
  \<^verbatim>\<open>game.js\<close> is not among the sources. The object below has what the specification's
  data model gives a game of this server: the word table, the two player slots
  \<^verbatim>\<open>'one'\<close> and \<^verbatim>\<open>'two'\<close> with a name and a device token each, the turn record and
  \<^verbatim>\<open>turnsLeft\<close>.
\<close>

record game =
  g_words :: "(string \<times> word_entry) list"
  g_names :: "string \<Rightarrow> string option"
  g_tokens :: "string \<Rightarrow> string option"
  g_currentTurn :: "clue option"
  g_turnsLeft :: int

text \<open>Modelled from the spec: the slots \<^verbatim>\<open>'one'\<close> and \<^verbatim>\<open>'two'\<close> are the teams 1 and 2 of the
  word table; any other value names no team.\<close>

definition slot_team :: "string option \<Rightarrow> nat option" where
  "slot_team p = (if p = Some ''one'' then Some 1 else if p = Some ''two'' then Some 2 else None)"

text \<open>Modelled from the spec: a fresh game (\<^verbatim>\<open>new Game()\<close> of the absent \<^verbatim>\<open>game.js\<close>) has
  the drawn word table, no members, no tokens, no clue (Idle) and the initial number of
  turns; the table and that number are parameters.\<close>

definition mem_new :: "(string \<times> word_entry) list \<Rightarrow> int \<Rightarrow> game" where
  "mem_new tab turns =
     \<lparr>g_words = tab, g_names = (\<lambda>p. None), g_tokens = (\<lambda>p. None), g_currentTurn = None,
      g_turnsLeft = turns\<rparr>"

text \<open>Modelled from the spec: the membership of a slot, read by \<^verbatim>\<open>Game.getPlayerName\<close>
  (\<^verbatim>\<open>game.js\<close> is absent).\<close>

definition mem_getPlayerName :: "string option \<Rightarrow> game \<Rightarrow> string option" where
  "mem_getPlayerName p gm = g_names gm (js_str p)"

text \<open>Modelled from the spec: "the device token to use for notification routing" of a
  slot, read by \<^verbatim>\<open>Game.getTokenForPlayer\<close> (\<^verbatim>\<open>game.js\<close> is absent).\<close>

definition mem_getTokenForPlayer :: "string option \<Rightarrow> game \<Rightarrow> string option" where
  "mem_getTokenForPlayer p gm = g_tokens gm (js_str p)"

text \<open>Modelled from the spec: \<^verbatim>\<open>addToTeam(playerId, token, desiredTeamId?)\<close> of section 4.3
  for \<^verbatim>\<open>Game.setPlayerName(name, player, token)\<close> (\<^verbatim>\<open>game.js\<close> is absent): the named slot,
  or without one the slot that already holds the token, or else the first free slot,
  gets the name and the token; the slot is returned.\<close>

definition mem_setPlayerName ::
  "string option \<Rightarrow> string option \<Rightarrow> string option \<Rightarrow> game \<Rightarrow> string option \<times> game" where
  "mem_setPlayerName name p tok gm =
     (let slot =
            (if truthy_str p then p
             else if truthy_str tok \<and> g_tokens gm ''one'' = tok then Some ''one''
             else if truthy_str tok \<and> g_tokens gm ''two'' = tok then Some ''two''
             else if \<not> truthy_str (g_names gm ''one'') then Some ''one''
             else if \<not> truthy_str (g_names gm ''two'') then Some ''two''
             else None)
      in case slot of
           None \<Rightarrow> (None, gm)
         | Some sl \<Rightarrow>
             (Some sl, gm\<lparr>g_names := (g_names gm)(sl := name),
                          g_tokens := (g_tokens gm)(sl := tok)\<rparr>))"

text \<open>Modelled from the spec: the counter \<^verbatim>\<open>turnsLeft\<close> read by \<^verbatim>\<open>Game.getTurnsLeft\<close>
  (\<^verbatim>\<open>game.js\<close> is absent).\<close>

definition mem_getTurnsLeft :: "game \<Rightarrow> int" where
  "mem_getTurnsLeft gm = g_turnsLeft gm"

text \<open>Modelled from the spec: \<^verbatim>\<open>giveClue(team, word, number)\<close> of section 4.4 for
  \<^verbatim>\<open>Game.giveClueForTurn\<close> (\<^verbatim>\<open>game.js\<close> is absent): "sets guessesLeft = number + 1";
  rejected when a clue of another team is active, overwriting the caller's own.\<close>

definition mem_giveClueForTurn ::
  "string option \<Rightarrow> string option \<Rightarrow> int option \<Rightarrow> game \<Rightarrow> clue option \<times> game" where
  "mem_giveClueForTurn p word' number gm =
     (let installed = \<lparr>cl_playerGivingClue = p,
                       cl_guessesLeft = map_option (\<lambda>n. n + 1) number,
                       cl_clueWord = word'\<rparr>
      in case g_currentTurn gm of
           None \<Rightarrow> (Some installed, gm\<lparr>g_currentTurn := Some installed\<rparr>)
         | Some active \<Rightarrow>
             if cl_playerGivingClue active \<noteq> p then (None, gm)
             else (Some installed, gm\<lparr>g_currentTurn := Some installed\<rparr>))"

text \<open>Modelled from the spec: \<^verbatim>\<open>endTurn()\<close> of section 4.4 for \<^verbatim>\<open>Game.endTurn\<close> (\<^verbatim>\<open>game.js\<close>
  is absent): to Idle, "always decrements turnsLeft by one, even if no clue was active".\<close>

definition mem_endTurn :: "game \<Rightarrow> game" where
  "mem_endTurn gm = gm\<lparr>g_currentTurn := None, g_turnsLeft := g_turnsLeft gm - 1\<rparr>"

text \<open>Modelled from the spec: \<^verbatim>\<open>recordGuess\<close> of section 4.3 and \<^verbatim>\<open>guess\<close> of section 4.4 for
  \<^verbatim>\<open>Game.guess(word, player)\<close> (\<^verbatim>\<open>game.js\<close> is absent), as \<open>ref_makeGuess\<close> does for the
  store; \<^verbatim>\<open>playerGuessingChanged\<close> says that the guess ended the turn.\<close>

definition mem_guess ::
  "string option \<Rightarrow> string option \<Rightarrow> game \<Rightarrow> (bool \<times> guess_info) option \<times> game" where
  "mem_guess word' p gm =
     (case slot_team p of
        None \<Rightarrow> (None, gm)
      | Some t \<Rightarrow>
         (case word' of
            None \<Rightarrow> (None, gm)
          | Some wd \<Rightarrow>
             (case map_of (g_words gm) wd of
                None \<Rightarrow> (None, gm)
              | Some e \<Rightarrow>
                 (case g_currentTurn gm of
                    None \<Rightarrow> (None, gm)
                  | Some tr \<Rightarrow>
                      if revealed_for t e then (None, gm)
                      else
                        (let tab = map (\<lambda>we. if fst we = wd then (wd, reveal_for t (snd we)) else we)
                                     (g_words gm);
                             left = (case cl_guessesLeft tr of None \<Rightarrow> 0 | Some n \<Rightarrow> n) - 1;
                             ends = (left \<le> 0 \<or> role_for t e \<noteq> Agent)
                         in (Some (ends, \<lparr>gi_word = wd, gi_role = role_for t e,
                                           gi_guessesLeft = left\<rparr>),
                             gm\<lparr>g_words := tab,
                                g_currentTurn :=
                                  (if ends then None else Some (tr\<lparr>cl_guessesLeft := Some left\<rparr>)),
                                g_turnsLeft :=
                                  (if ends then g_turnsLeft gm - 1 else g_turnsLeft gm)\<rparr>))))))"

text \<open>Modelled from the spec: \<^verbatim>\<open>Game.getViewForPlayer(player)\<close> is \<^verbatim>\<open>wordsView\<close> for the
  player's slot (\<^verbatim>\<open>game.js\<close> is absent).\<close>

definition mem_getViewForPlayer ::
  "string option \<Rightarrow> game \<Rightarrow> (string \<times> (role \<times> bool) option) list" where
  "mem_getViewForPlayer p gm = wordsView (slot_team p) (g_words gm)"

text \<open>Modelled from the spec: \<^verbatim>\<open>Game.getWords()\<close>, which the server calls for a socket
  without a player, is \<^verbatim>\<open>wordsView\<close> without a team (\<^verbatim>\<open>game.js\<close> is absent).\<close>

definition mem_getWords :: "game \<Rightarrow> (string \<times> (role \<times> bool) option) list" where
  "mem_getWords gm = wordsView None (g_words gm)"

text \<open>Modelled from the spec: the turn record, Idle when there is none, read by
  \<^verbatim>\<open>Game.getCurrentClue\<close> and as \<^verbatim>\<open>game.currentTurn\<close> (\<^verbatim>\<open>game.js\<close> is absent).\<close>

definition mem_getCurrentClue :: "game \<Rightarrow> clue option" where
  "mem_getCurrentClue gm = g_currentTurn gm"

text \<open>Modelled from the spec: the reference instance of the Game interface, made of the
  operations above; \<open>fresh\<close> is the object \<^verbatim>\<open>new Game()\<close> draws.\<close>

definition ref_game :: "game \<Rightarrow> (game, (string \<times> (role \<times> bool) option) list, guess_info) game_api" where
  "ref_game fresh =
     \<lparr>game_new = fresh, game_getPlayerName = mem_getPlayerName,
      game_getTokenForPlayer = mem_getTokenForPlayer, game_setPlayerName = mem_setPlayerName,
      game_getTurnsLeft = mem_getTurnsLeft, game_giveClueForTurn = mem_giveClueForTurn,
      game_endTurn = mem_endTurn, game_guess = mem_guess,
      game_getViewForPlayer = mem_getViewForPlayer, game_getWords = mem_getWords,
      game_getCurrentClue = mem_getCurrentClue, game_currentTurn = mem_getCurrentClue\<rparr>"

section \<open>A running example\<close>

text \<open>
  Game "ABCD" with three sockets in its set: socket 0 is Ada (player 7, team 1, with a
  device token), socket 1 is Grace (player 8, team 2, no token and no Facebook id), and
  socket 2 is a socket that is closing (\<^verbatim>\<open>readyState\<close> 2) and has no player yet. Linus
  (player 9, team 2, token "tokB") is not connected.
\<close>

definition ex_table :: "(string \<times> word_entry) list" where
  "ex_table =
     [(''android'', \<lparr>roleTeamOne = Agent, roleTeamTwo = Bystander,
                     revealedTeamOne = False, revealedTeamTwo = False\<rparr>),
      (''piano'', \<lparr>roleTeamOne = Bystander, roleTeamTwo = Agent,
                   revealedTeamOne = False, revealedTeamTwo = True\<rparr>),
      (''river'', \<lparr>roleTeamOne = Assassin, roleTeamTwo = Agent,
                   revealedTeamOne = False, revealedTeamTwo = False\<rparr>)]"

definition ex_fresh :: game_data where
  "ex_fresh = \<lparr>gd_words = ex_table, gd_turnsLeft = 9, gd_agentsLeftTeamOne = 0,
     gd_agentsLeftTeamTwo = 0\<rparr>"

definition ex_store :: store where
  "ex_store =
     \<lparr>st_exists = (\<lambda>g. g = ''ABCD''),
      st_turnsLeft = (\<lambda>g. 9),
      st_agentsLeft = (\<lambda>g t. if t = 2 then 1 else 0),
      st_team = (\<lambda>g t. if g = ''ABCD'' then (if t = 1 then [7] else if t = 2 then [8, 9] else [])
                         else []),
      st_tokens = (\<lambda>g t. if g = ''ABCD'' then (if t = 1 then [''tokA'']
                                                   else if t = 2 then [''tokB''] else [])
                           else []),
      st_words = (\<lambda>g. if g = ''ABCD'' then ex_table else []),
      st_turn = (\<lambda>g. None),
      st_facebook = (\<lambda>f. None),
      st_token = (\<lambda>k. if k = ''tokA'' then Some 7 else if k = ''tokB'' then Some 9 else None),
      st_playerIds = 9,
      st_player = (\<lambda>p. if p = 7
                         then Some \<lparr>pl_name = Some ''Ada'', pl_facebookId = None,
                                    pl_facebookUrl = None\<rparr>
                         else if p = 8
                         then Some \<lparr>pl_name = Some ''Grace'', pl_facebookId = None,
                                    pl_facebookUrl = None\<rparr>
                         else if p = 9
                         then Some \<lparr>pl_name = Some ''Linus'', pl_facebookId = None,
                                    pl_facebookUrl = None\<rparr>
                         else None),
      st_player_games = (\<lambda>p. if p = 7 \<or> p = 8 \<or> p = 9 then [''ABCD''] else [])\<rparr>"

definition ex_ada :: sock where
  "ex_ada = \<lparr>readyState = 1, gameId = Some ''ABCD'', playerName = Some ''Ada'', player = None,
     playerId = Some 7, teamId = Some 1, token = Some ''tokA'', facebookId = None,
     facebookImage = None\<rparr>"

definition ex_grace :: sock where
  "ex_grace = \<lparr>readyState = 1, gameId = Some ''ABCD'', playerName = Some ''Grace'', player = None,
     playerId = Some 8, teamId = Some 2, token = None, facebookId = None,
     facebookImage = None\<rparr>"

definition ex_closing :: sock where
  "ex_closing = \<lparr>readyState = 2, gameId = Some ''ABCD'', playerName = None, player = None,
     playerId = None, teamId = None, token = None, facebookId = None, facebookImage = None\<rparr>"

definition ex_world ::
  "(store, ((string \<times> (role \<times> bool) option) list, guess_info) event) world" where
  "ex_world =
     \<lparr>sockets = (\<lambda>g. if g = ''ABCD'' then Some [0, 1, 2] else None),
      conns = (\<lambda>c. if c = 0 then ex_ada else if c = 1 then ex_grace else ex_closing),
      db = ex_store, outbox = [], pushes = [], escaped = []\<rparr>"

definition ex_game :: game where
  "ex_game =
     \<lparr>g_words = ex_table,
      g_names = (\<lambda>p. if p = ''one'' then Some ''Ada''
                       else if p = ''two'' then Some ''Grace'' else None),
      g_tokens = (\<lambda>p. if p = ''one'' then Some ''tokA''
                        else if p = ''two'' then Some ''tokB'' else None),
      g_currentTurn = None, g_turnsLeft = 9\<rparr>"

text \<open>The same three sockets on the in-memory server, Ada in slot \<^verbatim>\<open>'one'\<close> and Grace in
  slot \<^verbatim>\<open>'two'\<close>, each slot with a device token.\<close>

definition ex_world_mem ::
  "(string \<Rightarrow> game option, ((string \<times> (role \<times> bool) option) list, guess_info) event_mem) world" where
  "ex_world_mem =
     \<lparr>sockets = (\<lambda>g. if g = ''ABCD'' then Some [0, 1, 2] else None),
      conns = (\<lambda>c. if c = 0 then ex_ada\<lparr>player := Some ''one''\<rparr>
                    else if c = 1 then ex_grace\<lparr>player := Some ''two''\<rparr> else ex_closing),
      db = (\<lambda>g. if g = ''ABCD'' then Some ex_game else None),
      outbox = [], pushes = [], escaped = []\<rparr>"

text \<open>Grace's socket has just closed (\<^verbatim>\<open>readyState\<close> 3) and its \<^verbatim>\<open>close\<close> listener is about to
  run.\<close>

definition ex_world_gone ::
  "(store, ((string \<times> (role \<times> bool) option) list, guess_info) event) world" where
  "ex_world_gone = ex_world\<lparr>conns := (conns ex_world)(1 := ex_grace\<lparr>readyState := 3\<rparr>)\<rparr>"

text \<open>Ada's team has given the clue "music" for 1; "piano" is already revealed for team 2.\<close>

definition ex_world_clue ::
  "(store, ((string \<times> (role \<times> bool) option) list, guess_info) event) world" where
  "ex_world_clue =
     ex_world\<lparr>db := ex_store\<lparr>st_turn := (\<lambda>g. if g = ''ABCD''
        then Some \<lparr>clueGiverTeamId = Some 1, clueWord = Some ''music'', clueNumber = Some 1,
                   guessesLeft = Some 1\<rparr>
        else None)\<rparr>\<rparr>"

text \<open>The in-memory example with no device token in slot \<^verbatim>\<open>'one'\<close>.\<close>

definition ex_world_mem_untokened ::
  "(string \<Rightarrow> game option, ((string \<times> (role \<times> bool) option) list, guess_info) event_mem) world" where
  "ex_world_mem_untokened =
     ex_world_mem\<lparr>db := (\<lambda>g. if g = ''ABCD''
        then Some (ex_game\<lparr>g_tokens := (\<lambda>p. if p = ''two'' then Some ''tokB'' else None)\<rparr>)
        else None)\<rparr>"

text \<open>The game \<^verbatim>\<open>new Game()\<close> draws in the example.\<close>

definition ex_new_game :: game where
  "ex_new_game = mem_new ex_table 9"

text \<open>The text \<^verbatim>\<open>{"gameId":"ABCD","type":"endTurn","payload":{}}\<close> and the object it parses to.\<close>

definition ex_raw :: string where
  "ex_raw = ''{'' @ dq @ ''gameId'' @ dq @ '':'' @ dq @ ''ABCD'' @ dq @ '','' @ dq @ ''type'' @ dq @
            '':'' @ dq @ ''endTurn'' @ dq @ '','' @ dq @ ''payload'' @ dq @ '':{}}''"

definition ex_msg :: inbound where
  "ex_msg = \<lparr>m_gameId = Some ''ABCD'', m_type = Some ''endTurn'', m_payload = Some no_payload\<rparr>"

text \<open>A stand-in for \<^verbatim>\<open>JSON.parse\<close> that knows this one well-formed text and throws on every
  other.\<close>

definition ex_parse :: "string \<Rightarrow> inbound option" where
  "ex_parse raw = (if raw = ex_raw then Some ex_msg else None)"




section \<open>Vocabulary of the statements\<close>

text \<open>The sockets a broadcast for game \<open>g\<close> reaches: the open ones of its set, in order.\<close>

definition open_clients :: "('d, 'e) world \<Rightarrow> string option \<Rightarrow> cid list" where
  "open_clients w g =
     filter (\<lambda>c. readyState (conns w c) = 1)
       (case sockets w (js_str g) of None \<Rightarrow> [] | Some cs \<Rightarrow> cs)"





section \<open>Basic facts\<close>

lemma js_str_Some [simp]: "js_str (Some s) = s"
  by (simp add: js_str_def)

lemma send_fields [simp]:
  "sockets (send c e w) = sockets w" "conns (send c e w) = conns w" "db (send c e w) = db w"
  "pushes (send c e w) = pushes w" "escaped (send c e w) = escaped w"
  "outbox (send c e w) =
     outbox w @ (if readyState (conns w c) = 1 then [(c, gameId (conns w c), e)] else [])"
  by (simp_all add: send_def)

lemma broadcast_fields [simp]:
  "sockets (broadcast g e w) = sockets w" "conns (broadcast g e w) = conns w"
  "db (broadcast g e w) = db w" "pushes (broadcast g e w) = pushes w"
  "escaped (broadcast g e w) = escaped w"
  "outbox (broadcast g e w) = outbox w @ map (\<lambda>c. (c, g, e)) (open_clients w g)"
  by (simp_all add: broadcast_def open_clients_def split: option.splits)

lemma iOSNotify_fields [simp]:
  "sockets (iOSNotify g ts t b w) = sockets w" "conns (iOSNotify g ts t b w) = conns w"
  "db (iOSNotify g ts t b w) = db w" "outbox (iOSNotify g ts t b w) = outbox w"
  "escaped (iOSNotify g ts t b w) = escaped w"
  "pushes (iOSNotify g ts t b w) =
     pushes w @ (if ts = [] then []
                 else [\<lparr>push_tokens = ts, push_title = t, push_body = b, push_gameId = g\<rparr>])"
  by (simp_all add: iOSNotify_def)

lemma open_clients_update [simp]:
  "open_clients (w\<lparr>db := d\<rparr>) g = open_clients w g"
  "open_clients (w\<lparr>outbox := ob\<rparr>) g = open_clients w g"
  "open_clients (w\<lparr>pushes := ps\<rparr>) g = open_clients w g"
  "open_clients (w\<lparr>escaped := es\<rparr>) g = open_clients w g"
  by (simp_all add: open_clients_def)

lemma open_clients_through [simp]:
  "open_clients (broadcast g' e w) g = open_clients w g"
  "open_clients (send c e w) g = open_clients w g"
  "open_clients (iOSNotify g' ts t b w) g = open_clients w g"
  by (simp_all add: open_clients_def)

lemma send_mem_fields [simp]:
  "sockets (send_mem c e w) = sockets w" "conns (send_mem c e w) = conns w"
  "db (send_mem c e w) = db w" "pushes (send_mem c e w) = pushes w"
  "escaped (send_mem c e w) = escaped w"
  "outbox (send_mem c e w) =
     outbox w @ (if readyState (conns w c) = 1 then [(c, None, e)] else [])"
  by (simp_all add: send_mem_def)

lemma broadcast_mem_fields [simp]:
  "sockets (broadcast_mem g e w) = sockets w" "conns (broadcast_mem g e w) = conns w"
  "db (broadcast_mem g e w) = db w" "pushes (broadcast_mem g e w) = pushes w"
  "escaped (broadcast_mem g e w) = escaped w"
  "outbox (broadcast_mem g e w) = outbox w @ map (\<lambda>c. (c, None, e)) (open_clients w g)"
  by (simp_all add: broadcast_mem_def open_clients_def split: option.splits)

lemma put_game_fields [simp]:
  "sockets (put_game g gm w) = sockets w" "conns (put_game g gm w) = conns w"
  "outbox (put_game g gm w) = outbox w" "pushes (put_game g gm w) = pushes w"
  "escaped (put_game g gm w) = escaped w"
  "db (put_game g gm w) = (db w)(js_str g \<mapsto> gm)"
  by (simp_all add: put_game_def)

lemma getOrCreateGame_mem_fields [simp]:
  "sockets (snd (getOrCreateGame_mem api g w)) = sockets w"
  "conns (snd (getOrCreateGame_mem api g w)) = conns w"
  "outbox (snd (getOrCreateGame_mem api g w)) = outbox w"
  "pushes (snd (getOrCreateGame_mem api g w)) = pushes w"
  "escaped (snd (getOrCreateGame_mem api g w)) = escaped w"
  "db (snd (getOrCreateGame_mem api g w)) (js_str g) = Some (fst (getOrCreateGame_mem api g w))"
  by (simp_all add: getOrCreateGame_mem_def split: option.splits)

lemma iOSNotify_mem_fields [simp]:
  "sockets (iOSNotify_mem api g p t b w) = sockets w"
  "conns (iOSNotify_mem api g p t b w) = conns w"
  "outbox (iOSNotify_mem api g p t b w) = outbox w"
  "escaped (iOSNotify_mem api g p t b w) = escaped w"
  "db (iOSNotify_mem api g p t b w) = db (snd (getOrCreateGame_mem api g w))"
  by (simp_all add: iOSNotify_mem_def Let_def)

lemma open_clients_through_mem [simp]:
  "open_clients (broadcast_mem g' e w) g = open_clients w g"
  "open_clients (send_mem c e w) g = open_clients w g"
  "open_clients (put_game g' gm v) g = open_clients v g"
  "open_clients (snd (getOrCreateGame_mem api g' v)) g = open_clients v g"
  "open_clients (iOSNotify_mem api g' p t b v) g = open_clients v g"
  by (simp_all add: open_clients_def)

lemmas ref_turn_defs =
  ref_db_def ref_getTurn_def ref_setTurn_def ref_getTurnsLeft_def ref_setTurnsLeft_def
  ref_getTokensOnTeam_def

lemma ex_world_sock:
  "gameId (conns ex_world 0) = Some ''ABCD''" "teamId (conns ex_world 0) = Some 1"
  "gameId (conns ex_world 1) = Some ''ABCD''" "teamId (conns ex_world 1) = Some 2"
  "gameId (conns ex_world (Suc 0)) = Some ''ABCD''" "teamId (conns ex_world (Suc 0)) = Some 2"
  "outbox ex_world = []" "pushes ex_world = []" "db ex_world = ex_store"
  by (simp_all add: ex_world_def ex_ada_def ex_grace_def)

lemma ex_world_open:
  "open_clients ex_world (Some ''ABCD'') = [0, 1]"
  "open_clients ex_world_mem (Some ''ABCD'') = [0, 1]"
  by (simp_all add: open_clients_def ex_world_def ex_world_mem_def ex_ada_def ex_grace_def
        ex_closing_def)

section \<open>The guess budget of a clue\<close>




section \<open>Who is notified of a clue\<close>

lemma giveClue_notifies_team_one:
  "pushes (giveClue api c wd n w) =
     pushes w @
     (if db_getTokensOnTeam api (gameId (conns w c)) 1
           (db_setTurn api (gameId (conns w c)) (teamId (conns w c)) wd n n (db w)) = []
      then []
      else [\<lparr>push_tokens = db_getTokensOnTeam api (gameId (conns w c)) 1
                (db_setTurn api (gameId (conns w c)) (teamId (conns w c)) wd n n (db w)),
              push_title = ''A clue has been given in your game'',
              push_body = js_str (playerName (conns w c)) @ '' gave the clue '' @ dq @ js_str wd @
                          dq @ '' - '' @ js_int n,
              push_gameId = gameId (conns w c)\<rparr>])"
  by (simp add: giveClue_def Let_def teamId_is_string_def)

text \<open>
  C2 is right and the Redis-backed \<^verbatim>\<open>giveClue\<close> misses it: it computes the other team as
  \<^verbatim>\<open>ws.teamId === 'one' ? 2 : 1\<close>, a number compared with a string, where its siblings
  \<^verbatim>\<open>makeGuess\<close> and \<^verbatim>\<open>handleStartNewGame\<close> compare with 1. Ada is on team 1, whose token is
  "tokA"; the other team's token is "tokB"; her clue is pushed to "tokA", her own team.
\<close>

theorem giveClue_notifies_own_team:
  "teamId (conns ex_world 0) = Some 1 \<and>
   ref_getTokensOnTeam (Some ''ABCD'') 1 (db ex_world) = [''tokA''] \<and>
   ref_getTokensOnTeam (Some ''ABCD'') 2 (db ex_world) = [''tokB''] \<and>
   map push_tokens (pushes (giveClue (ref_db ex_fresh) 0 (Some ''robot'') (Some 2) ex_world)) =
     [[''tokA'']]"
  by (simp add: giveClue_notifies_team_one ex_world_sock ref_turn_defs ex_store_def)

section \<open>A message that does not parse\<close>

text \<open>
  C3 is right and both \<^verbatim>\<open>message\<close> listeners miss it: \<^verbatim>\<open>JSON.parse(data)\<close> is their first
  statement and is inside no \<^verbatim>\<open>try\<close>, so for a text that does not parse nothing of the
  state changes and nothing is sent (the message is dropped), but the \<^verbatim>\<open>SyntaxError\<close>
  leaves the listener uncaught, which is a failure of the process and not of the message.
\<close>

theorem malformed_message_escapes:
  "JSON_parse raw = None \<longrightarrow>
     on_message JSON_parse api c raw w = w\<lparr>escaped := escaped w @ [Uncaught SyntaxError]\<rparr> \<and>
     on_message_mem JSON_parse api' c raw v = v\<lparr>escaped := escaped v @ [Uncaught SyntaxError]\<rparr>"
  by (simp add: on_message_def on_message_mem_def)

text \<open>The text \<^verbatim>\<open>{gameId\<close> does not parse.\<close>

theorem malformed_message_escapes_witness:
  "ex_parse ''{gameId'' = None \<and>
   on_message ex_parse (ref_db ex_fresh) 0 ''{gameId'' ex_world =
     ex_world\<lparr>escaped := [Uncaught SyntaxError]\<rparr> \<and>
   on_message_mem ex_parse (ref_game ex_new_game) 0 ''{gameId'' ex_world_mem =
     ex_world_mem\<lparr>escaped := [Uncaught SyntaxError]\<rparr>"
proof -
  have p: "ex_parse ''{gameId'' = None"
    by (simp add: ex_parse_def ex_raw_def dq_def)
  have e: "escaped ex_world = []" "escaped ex_world_mem = []"
    by (simp_all add: ex_world_def ex_world_mem_def)
  from malformed_message_escapes [where JSON_parse = ex_parse and raw = "''{gameId''"
      and api = "ref_db ex_fresh" and c = 0 and w = ex_world and api' = "ref_game ex_new_game"
      and v = ex_world_mem] p e
  show ?thesis by simp
qed

section \<open>Starting a new game\<close>

lemma getOrCreateGame_mem_existing:
  "db w (js_str g) = Some gm \<Longrightarrow> getOrCreateGame_mem api g w = (gm, w)"
  by (simp add: getOrCreateGame_mem_def)

lemma sendWholeGameState_mem_db:
  "db w (js_str g) = Some gm \<Longrightarrow> db (sendWholeGameState_mem api c g w) = db w"
  by (simp add: sendWholeGameState_mem_def maybeSendCurrentClue_mem_def getWordsForPlayer_def
        Let_def getOrCreateGame_mem_existing split: option.splits)

lemma foldl_sendWholeGameState_mem_db:
  "db w (js_str g) = Some gm \<Longrightarrow>
   db (foldl (\<lambda>acc client. sendWholeGameState_mem api client g acc) w cs) = db w"
  by (induction cs arbitrary: w) (simp_all add: sendWholeGameState_mem_db)

text \<open>Whatever the Game: the new object gets slot \<^verbatim>\<open>'two'\<close> back only when the token of
  slot \<^verbatim>\<open>'one'\<close> is truthy, and then with that token.\<close>

lemma handleStartNewGame_mem_game:
  "sockets w (js_str g) = Some cs \<Longrightarrow>
   db (handleStartNewGame_mem api g w) (js_str g) =
     (let old = fst (getOrCreateGame_mem api g w);
          playerOneName = game_getPlayerName api (Some ''one'') old;
          playerTwoName = game_getPlayerName api (Some ''two'') old;
          tokenOfOne = game_getTokenForPlayer api (Some ''one'') old;
          game2 = (if truthy_str playerOneName
                   then snd (game_setPlayerName api playerOneName (Some ''one'')
                               (js_and playerOneName tokenOfOne) (game_new api))
                   else game_new api)
      in Some (if truthy_str (js_and playerTwoName tokenOfOne)
               then snd (game_setPlayerName api playerTwoName (Some ''two'')
                           (js_and playerTwoName tokenOfOne) game2)
               else game2))"
  by (simp add: handleStartNewGame_mem_def Let_def foldl_sendWholeGameState_mem_db)

lemma ex_mem_games:
  "fst (getOrCreateGame_mem api (Some ''ABCD'') ex_world_mem) = ex_game"
  "fst (getOrCreateGame_mem api (Some ''ABCD'') ex_world_mem_untokened) =
     ex_game\<lparr>g_tokens := (\<lambda>p. if p = ''two'' then Some ''tokB'' else None)\<rparr>"
  "sockets ex_world_mem ''ABCD'' = Some [0, 1, 2]"
  "sockets ex_world_mem_untokened ''ABCD'' = Some [0, 1, 2]"
  "db ex_world_mem ''ABCD'' = Some ex_game"
  "db ex_world_mem_untokened ''ABCD'' =
     Some (ex_game\<lparr>g_tokens := (\<lambda>p. if p = ''two'' then Some ''tokB'' else None)\<rparr>)"
  by (simp_all add: getOrCreateGame_mem_def ex_world_mem_def ex_world_mem_untokened_def)

text \<open>
  C4 is right and the in-memory \<^verbatim>\<open>handleStartNewGame\<close> misses it: it reads player two's
  token with \<^verbatim>\<open>game.getTokenForPlayer('one')\<close> and restores slot \<^verbatim>\<open>'two'\<close> under
  \<^verbatim>\<open>if (playerTwoToken)\<close>, where slot \<^verbatim>\<open>'one'\<close> is read with \<^verbatim>\<open>'one'\<close> and restored under
  \<^verbatim>\<open>if (playerOneName)\<close>. With Ada ("tokA") and Grace ("tokB") in the game, the new game
  has Grace with the token "tokA"; when Ada has no token, the new game has nobody in
  slot \<^verbatim>\<open>'two'\<close> and no token for it.
\<close>

theorem handleStartNewGame_loses_team_two:
  "map_option (mem_getPlayerName (Some ''two'')) (db ex_world_mem ''ABCD'') = Some (Some ''Grace'') \<and>
   map_option (mem_getTokenForPlayer (Some ''two'')) (db ex_world_mem ''ABCD'') = Some (Some ''tokB'') \<and>
   map_option (mem_getPlayerName (Some ''two''))
     (db (handleStartNewGame_mem (ref_game ex_new_game) (Some ''ABCD'') ex_world_mem) ''ABCD'') =
     Some (Some ''Grace'') \<and>
   map_option (mem_getTokenForPlayer (Some ''two''))
     (db (handleStartNewGame_mem (ref_game ex_new_game) (Some ''ABCD'') ex_world_mem) ''ABCD'') =
     Some (Some ''tokA'') \<and>
   map_option (mem_getPlayerName (Some ''two'')) (db ex_world_mem_untokened ''ABCD'') =
     Some (Some ''Grace'') \<and>
   map_option (mem_getTokenForPlayer (Some ''two'')) (db ex_world_mem_untokened ''ABCD'') =
     Some (Some ''tokB'') \<and>
   map_option (mem_getPlayerName (Some ''two''))
     (db (handleStartNewGame_mem (ref_game ex_new_game) (Some ''ABCD'') ex_world_mem_untokened)
        ''ABCD'') = Some None \<and>
   map_option (mem_getTokenForPlayer (Some ''two''))
     (db (handleStartNewGame_mem (ref_game ex_new_game) (Some ''ABCD'') ex_world_mem_untokened)
        ''ABCD'') = Some None"
  using handleStartNewGame_mem_game [of ex_world_mem "Some ''ABCD''" "[0, 1, 2]" "ref_game ex_new_game"]
    handleStartNewGame_mem_game [of ex_world_mem_untokened "Some ''ABCD''" "[0, 1, 2]"
      "ref_game ex_new_game"]
  by (simp add: ex_mem_games Let_def ref_game_def mem_getPlayerName_def mem_getTokenForPlayer_def
        mem_setPlayerName_def ex_game_def ex_new_game_def mem_new_def js_and_def truthy_str_def)

section \<open>Ending a turn\<close>

text \<open>
  C5. On the Redis-backed server \<^verbatim>\<open>endTurn\<close>, whatever the turn state, leaves no turn
  record (Idle), leaves \<^verbatim>\<open>turnsLeft\<close> one less than it was, and writes a \<^verbatim>\<open>turns\<close> event with
  the new value to every open socket of the game. The in-memory \<^verbatim>\<open>endTurn\<close> replaces the
  game by what \<^verbatim>\<open>Game.endTurn\<close> makes of it and broadcasts the new \<^verbatim>\<open>turnsLeft\<close> whenever
  it differs from the old one.
\<close>

theorem endTurn_decrements:
  "ref_getTurn (Some g) (db (endTurn (ref_db fresh) (Some g) w)) = None \<and>
   ref_getTurnsLeft (Some g) (db (endTurn (ref_db fresh) (Some g) w)) =
     ref_getTurnsLeft (Some g) (db w) - 1 \<and>
   outbox (endTurn (ref_db fresh) (Some g) w) =
     outbox w @ map (\<lambda>c. (c, Some g, Turns (ref_getTurnsLeft (Some g) (db w) - 1)))
                  (open_clients w (Some g)) \<and>
   db (endTurn_mem api (Some g) v) g =
     Some (game_endTurn api (fst (getOrCreateGame_mem api (Some g) v))) \<and>
   outbox (endTurn_mem api (Some g) v) =
     outbox v @
     (if game_getTurnsLeft api (game_endTurn api (fst (getOrCreateGame_mem api (Some g) v))) =
         game_getTurnsLeft api (fst (getOrCreateGame_mem api (Some g) v))
      then []
      else map (\<lambda>c. (c, None, Turns_mem
                  (game_getTurnsLeft api
                     (game_endTurn api (fst (getOrCreateGame_mem api (Some g) v))))))
             (open_clients v (Some g)))"
  by (simp add: endTurn_def endTurn_mem_def Let_def ref_turn_defs)

text \<open>In the example nine turns are left and no clue is active: a pass leaves eight.\<close>

theorem endTurn_decrements_witness:
  "ref_getTurn (Some ''ABCD'') (db ex_world) = None \<and>
   ref_getTurnsLeft (Some ''ABCD'') (db (endTurn (ref_db ex_fresh) (Some ''ABCD'') ex_world)) = 8 \<and>
   outbox (endTurn (ref_db ex_fresh) (Some ''ABCD'') ex_world) =
     [(0, Some ''ABCD'', Turns 8), (1, Some ''ABCD'', Turns 8)] \<and>
   map_option g_turnsLeft
     (db (endTurn_mem (ref_game ex_game) (Some ''ABCD'') ex_world_mem) ''ABCD'') = Some 8 \<and>
   outbox (endTurn_mem (ref_game ex_game) (Some ''ABCD'') ex_world_mem) =
     [(0, None, Turns_mem 8), (1, None, Turns_mem 8)]"
proof -
  note t = endTurn_decrements [where g = "''ABCD''" and fresh = ex_fresh and w = ex_world
      and api = "ref_game ex_game" and v = ex_world_mem]
  have got: "fst (getOrCreateGame_mem (ref_game ex_game) (Some ''ABCD'') ex_world_mem) = ex_game"
    by (simp add: getOrCreateGame_mem_def ex_world_mem_def)
  have ended: "game_endTurn (ref_game ex_game) ex_game = ex_game\<lparr>g_currentTurn := None, g_turnsLeft := 8\<rparr>"
    "game_getTurnsLeft (ref_game ex_game) ex_game = 9"
    "game_getTurnsLeft (ref_game ex_game) (ex_game\<lparr>g_currentTurn := None, g_turnsLeft := 8\<rparr>) = 8"
    by (simp_all add: ref_game_def mem_endTurn_def mem_getTurnsLeft_def ex_game_def)
  have before: "ref_getTurn (Some ''ABCD'') (db ex_world) = None"
    "ref_getTurnsLeft (Some ''ABCD'') (db ex_world) = 9" "outbox ex_world_mem = []"
    by (simp_all add: ref_turn_defs ex_world_sock ex_store_def ex_world_mem_def)
  show ?thesis
    using t before by (simp add: got ended ex_world_sock ex_world_open)
qed

section \<open>Guessing a revealed word again\<close>

text \<open>
  C6. On the Redis-backed server, with the store's \<^verbatim>\<open>makeGuess\<close> as the specification
  describes it, a guess by a socket of team \<open>t\<close> at a word already revealed for \<open>t\<close>
  changes nothing in the store (no counter, no reveal flag, no turn record), writes to no
  socket and pushes no notification; the registry and the sockets stay as they were.
  (When no clue is active the handler's promise rejects at its first line, before it
  reaches the store.)
\<close>

theorem makeGuess_revealed_noop:
  "teamId (conns w c) = Some t \<and>
   map_of (st_words (db w) (js_str (gameId (conns w c)))) wd = Some e \<and> revealed_for t e \<longrightarrow>
     db (makeGuess (ref_db fresh) c (Some wd) w) = db w \<and>
     outbox (makeGuess (ref_db fresh) c (Some wd) w) = outbox w \<and>
     pushes (makeGuess (ref_db fresh) c (Some wd) w) = pushes w \<and>
     sockets (makeGuess (ref_db fresh) c (Some wd) w) = sockets w \<and>
     conns (makeGuess (ref_db fresh) c (Some wd) w) = conns w \<and>
     escaped (makeGuess (ref_db fresh) c (Some wd) w) =
       escaped w @ (case ref_getTurn (gameId (conns w c)) (db w) of
                      None \<Rightarrow> [Rejected TypeError] | Some tr \<Rightarrow> [])"
  by (simp add: makeGuess_def Let_def ref_db_def ref_makeGuess_def ref_getTurn_def
        split: option.splits)

text \<open>Grace, on team 2, guesses "piano", which is revealed for team 2, while the clue
  "music" is active.\<close>

theorem makeGuess_revealed_noop_witness:
  "teamId (conns ex_world_clue 1) = Some 2 \<and>
   map_of (st_words (db ex_world_clue) ''ABCD'') ''piano'' =
     Some \<lparr>roleTeamOne = Bystander, roleTeamTwo = Agent, revealedTeamOne = False,
           revealedTeamTwo = True\<rparr> \<and>
   db (makeGuess (ref_db ex_fresh) 1 (Some ''piano'') ex_world_clue) = db ex_world_clue \<and>
   outbox (makeGuess (ref_db ex_fresh) 1 (Some ''piano'') ex_world_clue) = [] \<and>
   pushes (makeGuess (ref_db ex_fresh) 1 (Some ''piano'') ex_world_clue) = [] \<and>
   escaped (makeGuess (ref_db ex_fresh) 1 (Some ''piano'') ex_world_clue) = []"
proof -
  have s: "teamId (conns ex_world_clue 1) = Some 2" "gameId (conns ex_world_clue 1) = Some ''ABCD''"
    "outbox ex_world_clue = []" "pushes ex_world_clue = []" "escaped ex_world_clue = []"
    by (simp_all add: ex_world_clue_def ex_world_def ex_grace_def)
  have e: "map_of (st_words (db ex_world_clue) ''ABCD'') ''piano'' =
      Some \<lparr>roleTeamOne = Bystander, roleTeamTwo = Agent, revealedTeamOne = False,
            revealedTeamTwo = True\<rparr>"
    by (simp add: ex_world_clue_def ex_store_def ex_table_def)
  have r: "revealed_for 2 \<lparr>roleTeamOne = Bystander, roleTeamTwo = Agent, revealedTeamOne = False,
            revealedTeamTwo = True\<rparr>"
    by (simp add: revealed_for_def)
  have t: "ref_getTurn (Some ''ABCD'') (db ex_world_clue) =
      Some \<lparr>clueGiverTeamId = Some 1, clueWord = Some ''music'', clueNumber = Some 1,
            guessesLeft = Some 1\<rparr>"
    by (simp add: ref_getTurn_def ex_world_clue_def)
  from makeGuess_revealed_noop [where w = ex_world_clue and c = 1 and t = 2 and wd = "''piano''"
      and fresh = ex_fresh and e = "\<lparr>roleTeamOne = Bystander, roleTeamTwo = Agent,
        revealedTeamOne = False, revealedTeamTwo = True\<rparr>"] s e r t
  show ?thesis by simp
qed

section \<open>What a socket is shown of the word table\<close>










section \<open>A socket that disconnects\<close>

text \<open>Whatever the store: when the \<^verbatim>\<open>close\<close> listener registers the removal, the callback
  runs after the listener has cleared the socket, and asks the store to remove the player
  \<^verbatim>\<open>undefined\<close> from the team \<^verbatim>\<open>undefined\<close> of the game \<^verbatim>\<open>undefined\<close>.\<close>

lemma on_close_callback_reads_cleared_socket:
  "truthy_str (gameId (conns w c)) \<Longrightarrow> sockets w (js_str (gameId (conns w c))) = Some cs \<Longrightarrow>
   truthy_num (teamId (conns w c)) \<Longrightarrow> \<not> truthy_str (facebookId (conns w c)) \<Longrightarrow>
   \<not> truthy_str (token (conns w c)) \<Longrightarrow>
   db (on_close api c w) = db_removePlayerFromTeam api None None None None (db w)"
  by (simp add: on_close_def handlePlayerLeft_def Let_def removePlayerFromTeam_callback_def
        clear_sock_def)

text \<open>When the socket holds a token or a Facebook id no removal is registered and the
  store is not touched.\<close>

lemma on_close_anchored_keeps_store:
  "truthy_str (facebookId (conns w c)) \<or> truthy_str (token (conns w c)) \<Longrightarrow>
   db (on_close api c w) = db w"
  by (auto simp add: on_close_def handlePlayerLeft_def Let_def split: option.splits)

text \<open>
  C8 is right in its first half and the Redis-backed \<^verbatim>\<open>close\<close> listener misses it. Grace
  (player 8, team 2) has neither token nor Facebook id. When her socket closes,
  \<^verbatim>\<open>handlePlayerLeft\<close> registers \<^verbatim>\<open>() => db.removePlayerFromTeam(ws.gameId, ws.playerId,
  ws.teamId)\<close> on a resolved promise, the listener then sets the three properties to
  \<^verbatim>\<open>undefined\<close>, and the callback reads them afterwards: the store is left as it was and
  player 8 is still on team 2 of "ABCD". (The in-memory \<^verbatim>\<open>handlePlayerLeft\<close> frees the slot
  before it clears the socket.)
\<close>

theorem on_close_keeps_membership:
  "teamId (conns ex_world_gone 1) = Some 2 \<and> playerId (conns ex_world_gone 1) = Some 8 \<and>
   token (conns ex_world_gone 1) = None \<and> facebookId (conns ex_world_gone 1) = None \<and>
   ref_getTeamIdForPlayerId (Some ''ABCD'') (Some 8) (db ex_world_gone) = Some 2 \<and>
   ref_getTeamIdForPlayerId (Some ''ABCD'') (Some 8)
     (db (on_close (ref_db ex_fresh) 1 ex_world_gone)) = Some 2 \<and>
   db (on_close (ref_db ex_fresh) 1 ex_world_gone) = db ex_world_gone \<and>
   sockets (on_close (ref_db ex_fresh) 1 ex_world_gone) ''ABCD'' = Some [0, 2]"
  by (simp add: on_close_def handlePlayerLeft_def Let_def removePlayerFromTeam_callback_def
        clear_sock_def ex_world_gone_def ex_world_def ex_grace_def truthy_str_def truthy_num_def
        ref_db_def ref_removePlayerFromTeam_def ref_getTeamIdForPlayerId_def ex_store_def)

section \<open>Joining the live set\<close>

subsection \<open>No handler of the Redis-backed server but the registration writes the registry\<close>

lemma maybeSendCurrentClue_sockets [simp]:
  "sockets (maybeSendCurrentClue api c w) = sockets w"
  by (simp add: maybeSendCurrentClue_def Let_def)

lemma sendWholeGameState_sockets [simp]:
  "sockets (sendWholeGameState api c w) = sockets w"
  by (simp add: sendWholeGameState_def Let_def)

lemma foldl_sendWholeGameState_sockets [simp]:
  "sockets (foldl (\<lambda>acc client. sendWholeGameState api client acc) w cs) = sockets w"
  by (induction cs arbitrary: w) simp_all

lemma handleStartNewGame_sockets [simp]:
  "sockets (handleStartNewGame api c w) = sockets w"
  by (cases "sockets w (js_str (gameId (conns w c)))")
     (simp_all add: handleStartNewGame_def Let_def)

lemma giveClue_sockets [simp]: "sockets (giveClue api c wd n w) = sockets w"
  by (simp add: giveClue_def Let_def)

lemma endTurn_sockets [simp]: "sockets (endTurn api g w) = sockets w"
  by (simp add: endTurn_def Let_def)

lemma makeGuess_sockets [simp]: "sockets (makeGuess api c wd w) = sockets w"
proof (cases "db_getTurn api (gameId (conns w c)) (db w)")
  case None
  then show ?thesis by (simp add: makeGuess_def Let_def)
next
  case (Some t)
  show ?thesis
  proof (cases "fst (db_makeGuess api (gameId (conns w c)) (teamId (conns w c)) wd (db w))")
    case None
    with Some show ?thesis by (simp add: makeGuess_def Let_def)
  next
    case guess: (Some gr)
    show ?thesis
      by (cases "db_getPlayer api (playerId (conns w c))
                   (snd (db_makeGuess api (gameId (conns w c)) (teamId (conns w c)) wd (db w)))")
         (simp_all add: makeGuess_def Let_def Some guess)
  qed
qed

lemma handlePlayerLeft_sockets [simp]:
  "sockets (snd (snd (handlePlayerLeft c w))) = sockets w"
  by (cases "sockets w (js_str (gameId (conns w c)))")
     (simp_all add: handlePlayerLeft_def Let_def)

lemma handlePlayerLeft_conns [simp]:
  "conns (snd (snd (handlePlayerLeft c w))) = conns w"
  by (cases "sockets w (js_str (gameId (conns w c)))")
     (simp_all add: handlePlayerLeft_def Let_def)

lemma removePlayerFromTeam_callback_sockets [simp]:
  "sockets (removePlayerFromTeam_callback api c w) = sockets w"
  "conns (removePlayerFromTeam_callback api c w) = conns w"
  by (simp_all add: removePlayerFromTeam_callback_def Let_def)

lemma handleTeamChanged_sockets [simp]:
  "sockets (snd (handleTeamChanged api c t w)) = sockets w"
  by (cases "sockets w (js_str (gameId (conns w c)))")
     (simp_all add: handleTeamChanged_def Let_def)

lemma handlePlayerChanged_sockets [simp]:
  "sockets (snd (handlePlayerChanged api c pn fb fu tk w)) = sockets w"
proof -
  let ?w1 = "w\<lparr>db := snd (db_setPlayer api pn fb fu tk (db w))\<rparr>"
  show ?thesis
    by (cases "sockets ?w1 (js_str (gameId (conns ?w1 c)))")
       (simp_all add: handlePlayerChanged_def Let_def)
qed

lemma handleRequest_sockets [simp]:
  "sockets (handleRequest api c data w) = sockets w"
  by (simp add: handleRequest_def Let_def)

lemma getOrCreateGame_sockets [simp]:
  "sockets (getOrCreateGame api g w) = sockets w"
  "conns (getOrCreateGame api g w) = conns w"
  "outbox (getOrCreateGame api g w) = outbox w"
  by (cases "db_getGame api g (db w)"; simp add: getOrCreateGame_def)+

lemma replay_fold:
  "sockets (foldl (\<lambda>acc client. if readyState (conns acc client) = 1
                                    then send c (f (conns acc client)) acc else acc) w xs) =
     sockets w \<and>
   conns (foldl (\<lambda>acc client. if readyState (conns acc client) = 1
                                  then send c (f (conns acc client)) acc else acc) w xs) =
     conns w \<and>
   db (foldl (\<lambda>acc client. if readyState (conns acc client) = 1
                               then send c (f (conns acc client)) acc else acc) w xs) =
     db w \<and>
   outbox (foldl (\<lambda>acc client. if readyState (conns acc client) = 1
                                   then send c (f (conns acc client)) acc else acc) w xs) =
     outbox w @
     (if readyState (conns w c) = 1
      then map (\<lambda>client. (c, gameId (conns w c), f (conns w client)))
             (filter (\<lambda>client. readyState (conns w client) = 1) xs)
      else [])"
  by (induction xs arbitrary: w) simp_all

lemma replay_roster_fields [simp]:
  "sockets (replay_roster c cs w) = sockets w"
  "conns (replay_roster c cs w) = conns w"
  "db (replay_roster c cs w) = db w"
  "outbox (replay_roster c cs w) =
     outbox w @
     (if readyState (conns w c) = 1
      then map (\<lambda>client. (c, gameId (conns w c),
                  PlayerJoined (int (length cs)) (playerName (conns w client))
                    (playerId (conns w client)) (facebookImage (conns w client))
                    (teamId (conns w client))))
             (filter (\<lambda>client. readyState (conns w client) = 1) cs)
      else [])"
  using replay_fold [of c "\<lambda>s. PlayerJoined (int (length cs)) (playerName s) (playerId s)
                              (facebookImage s) (teamId s)" w cs]
  by (simp_all add: replay_roster_def)






subsection \<open>Nor does any typed action of the in-memory server\<close>

lemma getWordsForPlayer_fields [simp]:
  "sockets (snd (getWordsForPlayer api g p w)) = sockets w"
  "conns (snd (getWordsForPlayer api g p w)) = conns w"
  by (simp_all add: getWordsForPlayer_def Let_def)

lemma maybeSendCurrentClue_mem_sockets [simp]:
  "sockets (maybeSendCurrentClue_mem api c g w) = sockets w"
  by (cases "game_getCurrentClue api (fst (getOrCreateGame_mem api g w))")
     (simp_all add: maybeSendCurrentClue_mem_def Let_def)

lemma sendWholeGameState_mem_sockets [simp]:
  "sockets (sendWholeGameState_mem api c g w) = sockets w"
  by (simp add: sendWholeGameState_mem_def Let_def)

lemma foldl_sendWholeGameState_mem_sockets [simp]:
  "sockets (foldl (\<lambda>acc client. sendWholeGameState_mem api client g acc) w cs) = sockets w"
  by (induction cs arbitrary: w) simp_all

lemma handleStartNewGame_mem_sockets [simp]:
  "sockets (handleStartNewGame_mem api g w) = sockets w"
  by (cases "sockets w (js_str g)") (simp_all add: handleStartNewGame_mem_def Let_def)

lemma giveClue_mem_sockets [simp]: "sockets (giveClue_mem api g p wd n w) = sockets w"
  by (cases "fst (game_giveClueForTurn api p wd n (fst (getOrCreateGame_mem api g w)))")
     (simp_all add: giveClue_mem_def Let_def)

lemma endTurn_mem_sockets [simp]: "sockets (endTurn_mem api g w) = sockets w"
  by (simp add: endTurn_mem_def Let_def)

lemma makeGuess_mem_sockets [simp]: "sockets (makeGuess_mem api g wd p w) = sockets w"
  by (simp add: makeGuess_mem_def Let_def)

lemma handlePlayerChanged_mem_sockets [simp]:
  "sockets (handlePlayerChanged_mem api c p pn tk w) = sockets w"
  by (cases "sockets w (js_str (gameId (conns w c)))")
     (simp_all add: handlePlayerChanged_mem_def Let_def)


lemma replay_fold_mem:
  "sockets (foldl (\<lambda>acc client. if readyState (conns acc client) = 1
                                    then send_mem c (f (conns acc client)) acc else acc) w xs) =
     sockets w \<and>
   conns (foldl (\<lambda>acc client. if readyState (conns acc client) = 1
                                  then send_mem c (f (conns acc client)) acc else acc) w xs) =
     conns w \<and>
   db (foldl (\<lambda>acc client. if readyState (conns acc client) = 1
                               then send_mem c (f (conns acc client)) acc else acc) w xs) =
     db w \<and>
   outbox (foldl (\<lambda>acc client. if readyState (conns acc client) = 1
                                   then send_mem c (f (conns acc client)) acc else acc) w xs) =
     outbox w @
     (if readyState (conns w c) = 1
      then map (\<lambda>client. (c, None, f (conns w client)))
             (filter (\<lambda>client. readyState (conns w client) = 1) xs)
      else [])"
  by (induction xs arbitrary: w) simp_all

lemma replay_roster_mem_fields [simp]:
  "sockets (replay_roster_mem c cs w) = sockets w"
  "conns (replay_roster_mem c cs w) = conns w"
  "db (replay_roster_mem c cs w) = db w"
  "outbox (replay_roster_mem c cs w) =
     outbox w @
     (if readyState (conns w c) = 1
      then map (\<lambda>client. (c, None,
                  PlayerJoined_mem (int (length cs)) (playerName (conns w client))
                    (player (conns w client))))
             (filter (\<lambda>client. readyState (conns w client) = 1) cs)
      else [])"
  using replay_fold_mem [of c "\<lambda>s. PlayerJoined_mem (int (length cs)) (playerName s) (player s)" w cs]
  by (simp_all add: replay_roster_mem_def)










section \<open>Writes reach open sockets only\<close>



end
